theory Spec2Isabelle
  imports Complex_Main
begin

section \<open>PSII efficiency analysis (\<open>photosynthesis/analyze_yii.py\<close>)\<close>

text \<open>
  A shallow embedding of \<open>analyze_yii\<close> and \<open>_create_histogram\<close>. Arrays are a shape
  together with an index function, the process-wide \<open>outputs\<close> object is an explicit
  state that every call takes and returns, and every exception of the Python code is a
  value of the type \<open>error\<close>.
\<close>

subsection \<open>Floating-point values\<close>

text \<open>
  A binary64 value is a not-a-number, an infinity or a finite number, which is held as
  the real number it stands for. The arithmetic of the efficiency formula and of the
  statistics is exact here: its rounding, overflow and underflow are outside the model,
  and the two zeros are one value (a division by zero takes the zero as positive). The
  propagation of not-a-number and of the infinities follows IEEE 754, which is what numpy
  does on float64 arrays (it warns, and does not raise). The edges of the histogram's
  bins are rounded as binary64 rounds them (\<open>round64\<close> below): a value is binned by
  comparing it with those edges.
\<close>

datatype fl = NaN | PInf | NInf | Fin real

fun fl_add :: "fl \<Rightarrow> fl \<Rightarrow> fl" where
  "fl_add NaN _ = NaN"
| "fl_add _ NaN = NaN"
| "fl_add (Fin a) (Fin b) = Fin (a + b)"
| "fl_add PInf NInf = NaN"
| "fl_add NInf PInf = NaN"
| "fl_add PInf _ = PInf"
| "fl_add NInf _ = NInf"
| "fl_add (Fin a) PInf = PInf"
| "fl_add (Fin a) NInf = NInf"

fun fl_sub :: "fl \<Rightarrow> fl \<Rightarrow> fl" where
  "fl_sub NaN _ = NaN"
| "fl_sub _ NaN = NaN"
| "fl_sub (Fin a) (Fin b) = Fin (a - b)"
| "fl_sub PInf PInf = NaN"
| "fl_sub NInf NInf = NaN"
| "fl_sub PInf _ = PInf"
| "fl_sub NInf _ = NInf"
| "fl_sub (Fin a) PInf = NInf"
| "fl_sub (Fin a) NInf = PInf"

fun fl_div :: "fl \<Rightarrow> fl \<Rightarrow> fl" where
  "fl_div NaN _ = NaN"
| "fl_div _ NaN = NaN"
| "fl_div (Fin a) (Fin b) =
     (if b = 0 then (if a = 0 then NaN else if 0 < a then PInf else NInf)
      else Fin (a / b))"
| "fl_div (Fin a) PInf = Fin 0"
| "fl_div (Fin a) NInf = Fin 0"
| "fl_div PInf (Fin b) = (if b < 0 then NInf else PInf)"
| "fl_div NInf (Fin b) = (if b < 0 then PInf else NInf)"
| "fl_div PInf _ = NaN"
| "fl_div NInf _ = NaN"

text \<open>The comparison \<open>v > 0\<close>: false on not-a-number.\<close>

fun fl_gt0 :: "fl \<Rightarrow> bool" where
  "fl_gt0 (Fin r) = (0 < r)"
| "fl_gt0 PInf = True"
| "fl_gt0 NInf = False"
| "fl_gt0 NaN = False"

text \<open>The order \<open>a <= b\<close>: false when either side is not-a-number.\<close>

fun fl_le :: "fl \<Rightarrow> fl \<Rightarrow> bool" where
  "fl_le NaN _ = False"
| "fl_le _ NaN = False"
| "fl_le (Fin a) (Fin b) = (a \<le> b)"
| "fl_le NInf _ = True"
| "fl_le _ PInf = True"
| "fl_le PInf _ = False"
| "fl_le (Fin a) NInf = False"

text \<open>
  \<open>np.rint\<close>: the nearest integer, the even one of two that are equally near.
\<close>

definition rint :: "real \<Rightarrow> real" where
  "rint x =
     (let f = \<lfloor>x\<rfloor>; d = x - of_int f in
      of_int (if d < 1 / 2 then f else if 1 / 2 < d then f + 1
              else if even f then f else f + 1))"

text \<open>
  The binary exponent \<open>e\<close> of a positive number, \<open>2 ^ e \<le> x < 2 ^ (e + 1)\<close>, found by
  doubling or halving, and the power of two with an integer exponent.
\<close>

function exponent :: "real \<Rightarrow> int" where
  "exponent x =
     (if x \<le> 0 then 0
      else if x < 1 then exponent (2 * x) - 1
      else if 2 \<le> x then exponent (x / 2) + 1
      else 0)"
  by pat_completeness auto
termination
proof (relation "measure (\<lambda>x. nat \<bar>\<lfloor>log 2 x\<rfloor>\<bar>)")
  show "wf (measure (\<lambda>x. nat \<bar>\<lfloor>log 2 x\<rfloor>\<bar>))" by simp
next
  fix x :: real assume a: "\<not> x \<le> 0" "x < 1"
  then have l: "log 2 (2 * x) = log 2 x + 1" by (simp add: log_mult)
  have "log 2 x < 0" using a by simp
  then have n: "\<lfloor>log 2 x\<rfloor> < 0" by linarith
  have e: "\<lfloor>log 2 (2 * x)\<rfloor> = \<lfloor>log 2 x\<rfloor> + 1" by (simp add: l)
  show "(2 * x, x) \<in> measure (\<lambda>x. nat \<bar>\<lfloor>log 2 x\<rfloor>\<bar>)"
    unfolding in_measure e using n by linarith
next
  fix x :: real assume a: "\<not> x \<le> 0" "\<not> x < 1" "2 \<le> x"
  then have l: "log 2 (x / 2) = log 2 x - 1" by (simp add: log_divide)
  have "1 \<le> log 2 x" using a by (simp add: le_log_iff)
  then have n: "1 \<le> \<lfloor>log 2 x\<rfloor>" by linarith
  have e: "\<lfloor>log 2 (x / 2)\<rfloor> = \<lfloor>log 2 x\<rfloor> - 1" by (simp add: l)
  show "(x / 2, x) \<in> measure (\<lambda>x. nat \<bar>\<lfloor>log 2 x\<rfloor>\<bar>)"
    unfolding in_measure e using n by linarith
qed

declare exponent.simps [simp del]

definition pow2 :: "int \<Rightarrow> real" where
  "pow2 e = (if 0 \<le> e then 2 ^ nat e else 1 / 2 ^ nat (- e))"

text \<open>
  The binary64 value nearest to a real number, the one with the even significand of two
  that are equally near: with \<open>2 ^ e \<le> |x| < 2 ^ (e + 1)\<close> the binary64 values around
  \<open>x\<close> are the multiples of \<open>2 ^ (e - 52)\<close>. The exponent is not bounded, so the
  subnormal numbers and the overflow to infinity are outside the model.
\<close>

definition round64 :: "real \<Rightarrow> real" where
  "round64 x =
     (if x = 0 then 0
      else (let q = pow2 (exponent \<bar>x\<bar> - 52) in rint (x / q) * q))"

text \<open>Finite means neither not-a-number nor an infinity (\<open>np.isfinite\<close>).\<close>

fun isfinite :: "fl \<Rightarrow> bool" where
  "isfinite (Fin r) = True"
| "isfinite _ = False"

subsection \<open>The numpy functions the histogram uses\<close>

text \<open>
  \<open>np.linspace(0, 1, bins + 1)\<close> in binary64: the step is the rounded quotient
  \<open>1 / bins\<close>, the edge \<open>i\<close> is the rounded product of \<open>i\<close> and the step, and the last
  edge is set to the end of the range.
\<close>

definition bin_edges :: "nat \<Rightarrow> real list" where
  "bin_edges bins = map (\<lambda>i. round64 (real i * round64 (1 / real bins))) [0..<bins] @ [1]"

text \<open>
  A value falls into bin \<open>i\<close> when it lies between the bin's edges; every bin is half
  open except the last one, which includes the upper end of the range. Not-a-number and
  the infinities fall into no bin.
\<close>

fun in_bin :: "real list \<Rightarrow> nat \<Rightarrow> fl \<Rightarrow> bool" where
  "in_bin edges i (Fin r) =
     (edges ! i \<le> r \<and> (r < edges ! (i + 1) \<or> (i + 2 = length edges \<and> r \<le> edges ! (i + 1))))"
| "in_bin edges i _ = False"

text \<open>
  \<open>np.histogram(a, bins, range=(0, 1))\<close>: the counts and the edges. numpy keeps the
  values of the closed range, estimates the bin of each by scaling it, and corrects the
  estimate by comparing the value with the edges: a value is counted in the bin whose
  edges enclose it.
\<close>

definition histogram :: "fl list \<Rightarrow> nat \<Rightarrow> nat list \<times> real list" where
  "histogram a bins =
     (let edges = bin_edges bins in
      (map (\<lambda>i. length (filter (in_bin edges i) a)) [0..<bins], edges))"

text \<open>
  \<open>np.argmax\<close>: the index of the first occurrence of the maximum. On an empty array numpy
  raises; the histogram always has 100 counts, so that equation is never reached.
\<close>

fun argmax :: "nat list \<Rightarrow> nat" where
  "argmax [] = 0"
| "argmax (x # xs) = (if list_all (\<lambda>y. y \<le> x) xs then 0 else Suc (argmax xs))"

subsection \<open>The histogram builder (\<open>_create_histogram\<close>)\<close>

text \<open>
  A column of the data frame is a list of counts or a list of floats. The data frame is
  built from a dict literal, so a later key replaces an equal earlier one: with the
  label \<open>Plant Pixels\<close> the frame has the edges under that name and no counts.
\<close>

datatype column = IntCol "nat list" | FloatCol "real list"

type_synonym hist_df = "string \<rightharpoonup> column"

text \<open>
  The plotnine figure, as the values that go into it: the data frame and the two
  aesthetics of the line, the number printed after \<open>Peak Bin Value:\<close> in the label, the
  label after \<open>measurement:\<close> in the title, and the x axis label.
\<close>

record hist_fig =
  fig_data :: hist_df
  aes_x :: string
  aes_y :: string
  peak_bin_value :: real
  title_measurement :: string
  labs_x :: string

text \<open>
  The array \<open>yii_img\<close> is given by its elements in row-major order: the boolean index
  \<open>yii_img[np.where(yii_img > 0)]\<close> keeps the positive ones in that order, whatever the
  shape. \<open>yii_histogram\<close> is the first statement of the function: the counts
  \<open>yii_hist\<close> and the edges \<open>yii_bins\<close>.
\<close>

definition yii_histogram :: "fl list \<Rightarrow> nat list \<times> real list" where
  "yii_histogram yii_img = histogram (filter fl_gt0 yii_img) 100"

definition create_histogram :: "fl list \<Rightarrow> string \<Rightarrow> hist_df \<times> hist_fig" where
  "create_histogram yii_img mlabel =
     (let (yii_hist, yii_bins) = yii_histogram yii_img;
          max_bin = yii_bins ! argmax yii_hist;
          hist_df = (Map.empty(''Plant Pixels'' \<mapsto> IntCol yii_hist))
                      (mlabel \<mapsto> FloatCol (butlast yii_bins));
          hist_fig = \<lparr>fig_data = hist_df, aes_x = mlabel, aes_y = ''Plant Pixels'',
                      peak_bin_value = max_bin, title_measurement = mlabel,
                      labs_x = ''photosynthetic efficiency (yii)''\<rparr>
      in (hist_df, hist_fig))"

subsection \<open>Arrays, the observation store and errors\<close>

text \<open>
  The fluorescence stack \<open>ps_da\<close>: an xarray DataArray with the dimensions
  \<open>(x, y, frame_label, measurement)\<close>. \<open>da_shape\<close> is \<open>ps_da.shape[:2]\<close>. The frame
  labels index the frame axis without repetition, so the coordinate is a finite map
  from a label to its position. \<open>da_measurement\<close> is the measurement coordinate, one
  value for each position of the measurement axis. \<open>da_values\<close> holds the values after
  \<open>astype('float')\<close>, which is exact on the integers a camera delivers.
\<close>

record dataarray =
  da_name :: string
  da_shape :: "nat \<times> nat"
  da_frame_label :: "string \<rightharpoonup> nat"
  da_measurement :: "string list"
  da_values :: "nat \<Rightarrow> nat \<Rightarrow> nat \<Rightarrow> nat \<Rightarrow> fl"

text \<open>The mask: a two-dimensional numpy array with the name of its dtype.\<close>

record ndarray =
  nd_shape :: "nat \<times> nat"
  nd_dtype :: string
  nd_values :: "nat \<Rightarrow> nat \<Rightarrow> int"

text \<open>
  The efficiency map \<open>yii\<close>: the dimensions \<open>(x, y, measurement)\<close>. The coordinates of
  the consumed frame axis, which the function drops from the result before it returns
  it, are not part of the record.
\<close>

record yii_da =
  yii_shape :: "nat \<times> nat"
  yii_measurement :: "string list"
  yii_values :: "nat \<Rightarrow> nat \<Rightarrow> nat \<Rightarrow> fl"

text \<open>The elements of a two-dimensional array in row-major order.\<close>

definition ravel :: "nat \<times> nat \<Rightarrow> (nat \<Rightarrow> nat \<Rightarrow> 'a) \<Rightarrow> 'a list" where
  "ravel shape f = concat (map (\<lambda>x. map (f x) [0..<snd shape]) [0..<fst shape])"

text \<open>\<open>np.unique\<close>: the sorted distinct elements.\<close>

definition unique :: "ndarray \<Rightarrow> int list" where
  "unique a = sort (remdups (ravel (nd_shape a) (nd_values a)))"

text \<open>
  The messages of the three fatal errors (the first one names the expected shape), and
  the exceptions a call can end with.
\<close>

datatype fatal_message =
    Mask_needs_to_have_shape "nat \<times> nat"
  | Mask_must_have_dtype_uint8_and_be_binary
  | Measurement_labels_must_be_the_same_length

datatype error =
    FatalError fatal_message
  | KeyError string
  | ValueError
  | IndexError
  | UnboundLocalError string

text \<open>
  Modelled from the spec: \<open>fatal_error\<close> is not among the source files; a failed
  precondition is fatal and aborts the whole call with its message.
\<close>

definition fatal_error :: "fatal_message \<Rightarrow> error + 'a" where
  "fatal_error msg = Inl (FatalError msg)"

text \<open>
  An observation as \<open>outputs.add_observation\<close> receives it, and the process-wide
  \<open>outputs\<close> object: the observation store and the image collection.
\<close>

datatype obs_datatype = Float_type | List_type

datatype obs_value = Float_value fl | List_value column

datatype obs_label = Label_str string | Label_list column

record observation =
  obs_sample :: string
  obs_variable :: string
  obs_trait :: string
  obs_method :: string
  obs_scale :: string
  obs_datatype :: obs_datatype
  obs_value :: obs_value
  obs_label :: obs_label

record outputs =
  observations :: "observation list"
  images :: "yii_da list"

text \<open>
  Modelled from the spec: \<open>outputs.add_observation\<close> is not among the source files; an
  observation is created once and appended to the process-wide store.
\<close>

definition add_observation :: "observation \<Rightarrow> outputs \<Rightarrow> outputs" where
  "add_observation ob outs = outs\<lparr>observations := observations outs @ [ob]\<rparr>"

text \<open>\<open>str.lower\<close> on ASCII text.\<close>

definition lower_char :: "char \<Rightarrow> char" where
  "lower_char c =
     (case map_of (zip ''ABCDEFGHIJKLMNOPQRSTUVWXYZ'' ''abcdefghijklmnopqrstuvwxyz'') c of
        Some l \<Rightarrow> l
      | None \<Rightarrow> c)"

definition lower :: "string \<Rightarrow> string" where
  "lower s = map lower_char s"

subsection \<open>The efficiency formula\<close>

text \<open>
  \<open>ps_da.astype('float').where(mask > 0, other=np.nan)\<close>, with the mask broadcast over
  the frame and measurement axes.
\<close>

definition where_mask :: "dataarray \<Rightarrow> ndarray \<Rightarrow> dataarray" where
  "where_mask ps_da msk =
     ps_da\<lparr>da_values := (\<lambda>x y f m. if 0 < nd_values msk x y then da_values ps_da x y f m
                                   else NaN)\<rparr>"

text \<open>\<open>da.sel(frame_label=l)\<close>: the frame with that label; a KeyError without one.\<close>

definition sel_frame_label :: "dataarray \<Rightarrow> string \<Rightarrow> error + (nat \<Rightarrow> nat \<Rightarrow> nat \<Rightarrow> fl)" where
  "sel_frame_label da l =
     (case da_frame_label da l of
        None \<Rightarrow> Inl (KeyError l)
      | Some f \<Rightarrow> Inr (\<lambda>x y m. da_values da x y f m))"

text \<open>\<open>(da.sel(frame_label=hi) - da.sel(frame_label=lo)) / da.sel(frame_label=hi)\<close>.\<close>

definition calc_yii :: "dataarray \<Rightarrow> string \<Rightarrow> string \<Rightarrow> error + yii_da" where
  "calc_yii da hi lo =
     (case sel_frame_label da hi of
        Inl e \<Rightarrow> Inl e
      | Inr fhi \<Rightarrow>
          (case sel_frame_label da lo of
             Inl e \<Rightarrow> Inl e
           | Inr flo \<Rightarrow>
               Inr \<lparr>yii_shape = da_shape da, yii_measurement = da_measurement da,
                    yii_values = (\<lambda>x y m. fl_div (fl_sub (fhi x y m) (flo x y m)) (fhi x y m))\<rparr>))"

text \<open>
  \<open>groupby('measurement')\<close>: xarray refuses to group along an empty coordinate. The
  groups otherwise keep their positions on the measurement axis, so what is mapped or
  reduced afterwards is one result for each measurement, in the order of the axis.
\<close>

definition groupby_measurement :: "string list \<Rightarrow> error + unit" where
  "groupby_measurement ms = (if ms = [] then Inl ValueError else Inr ())"

text \<open>
  The branch on the name of the stack. The result is \<open>None\<close> when neither branch runs:
  the variable \<open>yii\<close> is then unbound.
\<close>

definition compute_yii :: "dataarray \<Rightarrow> ndarray \<Rightarrow> error + yii_da option" where
  "compute_yii ps_da msk =
     (let var = lower (da_name ps_da) in
      if var = ''darkadapted'' then
        (let yii0 = where_mask ps_da msk in
         case calc_yii yii0 ''Fm'' ''F0'' of Inl e \<Rightarrow> Inl e | Inr yii \<Rightarrow> Inr (Some yii))
      else if var = ''lightadapted'' then
        (let yii0 = where_mask ps_da msk in
         case groupby_measurement (da_measurement yii0) of
           Inl e \<Rightarrow> Inl e
         | Inr _ \<Rightarrow>
             (case calc_yii yii0 ''Fmp'' ''Fp'' of Inl e \<Rightarrow> Inl e | Inr yii \<Rightarrow> Inr (Some yii)))
      else Inr None)"

subsection \<open>The statistics of one measurement\<close>

text \<open>\<open>yii.where(yii > 0)\<close>: not-a-number wherever the value is not positive.\<close>

definition where_gt0 :: "fl \<Rightarrow> fl" where
  "where_gt0 v = (if fl_gt0 v then v else NaN)"

text \<open>\<open>yii.isel({'measurement': i}).values\<close>, as its elements in row-major order.\<close>

definition isel_measurement :: "yii_da \<Rightarrow> nat \<Rightarrow> fl list" where
  "isel_measurement yii i = ravel (yii_shape yii) (\<lambda>x y. yii_values yii x y i)"

text \<open>Sorting in ascending order (insertion sort).\<close>

fun insort_fl :: "fl \<Rightarrow> fl list \<Rightarrow> fl list" where
  "insort_fl v [] = [v]"
| "insort_fl v (w # ws) = (if fl_le v w then v # w # ws else w # insort_fl v ws)"

definition sort_fl :: "fl list \<Rightarrow> fl list" where
  "sort_fl vs = foldr insort_fl vs []"

text \<open>
  The median that skips not-a-number: the middle of the sorted values, the mean of the
  two middle ones when their number is even, and not-a-number when there is none.
\<close>

definition nanmedian :: "fl list \<Rightarrow> fl" where
  "nanmedian vs =
     (let s = sort_fl (filter (\<lambda>v. v \<noteq> NaN) vs); n = length s in
      if n = 0 then NaN
      else if odd n then s ! (n div 2)
      else fl_div (fl_add (s ! (n div 2 - 1)) (s ! (n div 2))) (Fin 2))"

text \<open>
  The maximum that skips not-a-number: not-a-number when there is no other value, and
  a ValueError on a slice without any element, which numpy refuses to reduce.
\<close>

definition nanmax_value :: "fl list \<Rightarrow> fl" where
  "nanmax_value vs =
     (case filter (\<lambda>v. v \<noteq> NaN) vs of
        [] \<Rightarrow> NaN
      | w # ws \<Rightarrow> fold (\<lambda>v best. if fl_le best v then v else best) ws w)"

definition nanmax :: "fl list \<Rightarrow> error + fl" where
  "nanmax vs = (if vs = [] then Inl ValueError else Inr (nanmax_value vs))"

text \<open>The results of a list of reductions, or the first error among them.\<close>

fun collect :: "(error + 'a) list \<Rightarrow> error + 'a list" where
  "collect [] = Inr []"
| "collect (r # rs) =
     (case r of
        Inl e \<Rightarrow> Inl e
      | Inr v \<Rightarrow> (case collect rs of Inl e \<Rightarrow> Inl e | Inr vs \<Rightarrow> Inr (v # vs)))"

text \<open>
  \<open>stats.mode(..., nan_policy="omit", axis=None).mode\<close>: the most frequent of the values
  that are not not-a-number, the smallest one when several are as frequent, and
  not-a-number when there is none.
\<close>

definition mode :: "fl list \<Rightarrow> fl" where
  "mode vs =
     (let s = sort_fl (filter (\<lambda>v. v \<noteq> NaN) vs) in
      if s = [] then NaN else s ! argmax (map (count_list s) s))"

text \<open>
  The three arrays \<open>yii_median\<close>, \<open>yii_max\<close> and \<open>yii_mode\<close>, in the order the source
  computes them, one entry for each measurement, each over the rows and columns of the
  positive values.
\<close>

definition compute_statistics :: "yii_da \<Rightarrow> error + fl list \<times> fl list \<times> fl list" where
  "compute_statistics yii =
     (case groupby_measurement (yii_measurement yii) of
        Inl e \<Rightarrow> Inl e
      | Inr _ \<Rightarrow>
          (let positive = (\<lambda>i. map where_gt0 (isel_measurement yii i));
               ms = [0..<length (yii_measurement yii)];
               yii_median = map (\<lambda>i. nanmedian (positive i)) ms
           in case collect (map (\<lambda>i. nanmax (positive i)) ms) of
                Inl e \<Rightarrow> Inl e
              | Inr yii_max \<Rightarrow> Inr (yii_median, yii_max, map (\<lambda>i. mode (positive i)) ms)))"

subsection \<open>The loop over the measurements\<close>

text \<open>\<open>np.around\<close> scales, rounds with \<open>np.rint\<close> and scales back.\<close>

fun around :: "column \<Rightarrow> nat \<Rightarrow> column" where
  "around (FloatCol xs) decimals = FloatCol (map (\<lambda>x. rint (x * 10 ^ decimals) / 10 ^ decimals) xs)"
| "around (IntCol xs) decimals = IntCol xs"

text \<open>The observation of a float statistic, and the one of the histogram.\<close>

definition float_observation :: "string \<Rightarrow> string \<Rightarrow> string \<Rightarrow> fl \<Rightarrow> observation" where
  "float_observation label variable trait v =
     \<lparr>obs_sample = label, obs_variable = variable, obs_trait = trait,
      obs_method = ''plantcv.plantcv.photosynthesis.analyze_yii'', obs_scale = ''none'',
      obs_datatype = Float_type, obs_value = Float_value v, obs_label = Label_str ''none''\<rparr>"

definition hist_observation :: "string \<Rightarrow> string \<Rightarrow> column \<Rightarrow> column \<Rightarrow> observation" where
  "hist_observation label mlabel plant_pixels edges =
     \<lparr>obs_sample = label, obs_variable = ''yii_hist_'' @ mlabel,
      obs_trait = ''yii frequencies'',
      obs_method = ''plantcv.plantcv.photosynthesis.analyze_yii'', obs_scale = ''none'',
      obs_datatype = List_type, obs_value = List_value plant_pixels,
      obs_label = Label_list (around edges 2)\<rparr>"

text \<open>
  One pass of the loop body for the index \<open>i\<close> and the coordinate value \<open>mlabel0\<close>.
  The store is returned with the error too: what was recorded before an exception stays
  recorded.
\<close>

definition loop_body ::
  "yii_da \<Rightarrow> fl list \<Rightarrow> fl list \<Rightarrow> fl list \<Rightarrow> string list option \<Rightarrow> string \<Rightarrow>
   nat \<Rightarrow> string \<Rightarrow> outputs \<Rightarrow> (error + hist_fig) \<times> outputs" where
  "loop_body yii yii_median yii_mode yii_max measurement_labels label i mlabel0 outs =
     (case (case measurement_labels of
              None \<Rightarrow> Inr mlabel0
            | Some ls \<Rightarrow> if i < length ls then Inr (ls ! i) else Inl IndexError) of
        Inl e \<Rightarrow> (Inl e, outs)
      | Inr mlabel \<Rightarrow>
          (let (hist_df, hist_fig) = create_histogram (isel_measurement yii i) mlabel;
               outs1 = add_observation
                 (float_observation label (''yii_median_'' @ mlabel) ''median yii value''
                    (yii_median ! i)) outs;
               outs2 = add_observation
                 (float_observation label (''yii_mode_'' @ mlabel) ''mode yii value''
                    (yii_mode ! i)) outs1;
               outs3 = add_observation
                 (float_observation label (''yii_max_'' @ mlabel) ''peak yii value''
                    (yii_max ! i)) outs2
           in case hist_df ''Plant Pixels'' of
                None \<Rightarrow> (Inl (KeyError ''Plant Pixels''), outs3)
              | Some plant_pixels \<Rightarrow>
                  (case hist_df mlabel of
                     None \<Rightarrow> (Inl (KeyError mlabel), outs3)
                   | Some edges \<Rightarrow>
                       (Inr hist_fig,
                        add_observation (hist_observation label mlabel plant_pixels edges)
                          outs3))))"

text \<open>
  The \<open>for\<close> loop over \<open>enumerate(ps_da.measurement.values)\<close>. The variable \<open>hist_fig\<close>
  is unbound (\<open>None\<close>) until the first pass binds it, and each pass rebinds it.
\<close>

fun measurement_loop ::
  "yii_da \<Rightarrow> fl list \<Rightarrow> fl list \<Rightarrow> fl list \<Rightarrow> string list option \<Rightarrow> string \<Rightarrow>
   (nat \<times> string) list \<Rightarrow> hist_fig option \<Rightarrow> outputs \<Rightarrow> (error + hist_fig option) \<times> outputs" where
  "measurement_loop yii yii_median yii_mode yii_max measurement_labels label [] fig outs =
     (Inr fig, outs)"
| "measurement_loop yii yii_median yii_mode yii_max measurement_labels label ((i, mlabel0) # rest) fig outs =
     (case loop_body yii yii_median yii_mode yii_max measurement_labels label i mlabel0 outs of
        (Inl e, outs') \<Rightarrow> (Inl e, outs')
      | (Inr hist_fig, outs') \<Rightarrow>
          measurement_loop yii yii_median yii_mode yii_max measurement_labels label rest
            (Some hist_fig) outs')"

subsection \<open>The analyzer (\<open>analyze_yii\<close>)\<close>

text \<open>
  The three preconditions in the order of the source, the formula of the variant, the
  statistics, the loop, the map appended to \<open>outputs.images\<close>, and the return of the map
  with the figure of the last pass. The calls of \<open>_debug\<close> print or plot and change
  neither a value nor the store; they are left out.
\<close>

definition analyze_yii ::
  "dataarray \<Rightarrow> ndarray \<Rightarrow> string list option \<Rightarrow> string \<Rightarrow> outputs \<Rightarrow>
   (error + yii_da \<times> hist_fig) \<times> outputs" where
  "analyze_yii ps_da msk measurement_labels label outs =
     (if nd_shape msk \<noteq> da_shape ps_da then
        (fatal_error (Mask_needs_to_have_shape (da_shape ps_da)), outs)
      else if 2 < length (unique msk) \<or> nd_dtype msk \<noteq> ''uint8'' then
        (fatal_error Mask_must_have_dtype_uint8_and_be_binary, outs)
      else if (case measurement_labels of
                 None \<Rightarrow> False
               | Some ls \<Rightarrow> length ls \<noteq> length (da_measurement ps_da)) then
        (fatal_error Measurement_labels_must_be_the_same_length, outs)
      else
        (case compute_yii ps_da msk of
           Inl e \<Rightarrow> (Inl e, outs)
         | Inr None \<Rightarrow> (Inl (UnboundLocalError ''yii''), outs)
         | Inr (Some yii) \<Rightarrow>
             (case compute_statistics yii of
                Inl e \<Rightarrow> (Inl e, outs)
              | Inr (yii_median, yii_max, yii_mode) \<Rightarrow>
                  (case measurement_loop yii yii_median yii_mode yii_max measurement_labels
                          label (enumerate 0 (da_measurement ps_da)) None outs of
                     (Inl e, outs') \<Rightarrow> (Inl e, outs')
                   | (Inr fig, outs') \<Rightarrow>
                       (let outs'' = outs'\<lparr>images := images outs' @ [yii]\<rparr> in
                        case fig of
                          None \<Rightarrow> (Inl (UnboundLocalError ''hist_fig''), outs'')
                        | Some hist_fig \<Rightarrow> (Inr (yii, hist_fig), outs''))))))"

subsection \<open>Notions used by the properties\<close>

text \<open>The fixed domain of the histogram: the finite values of the closed interval from 0 to 1.\<close>

fun in_range :: "fl \<Rightarrow> bool" where
  "in_range (Fin r) = (0 \<le> r \<and> r \<le> 1)"
| "in_range _ = False"

text \<open>
  The label a pass of the loop resolves for the pair \<open>(i, mlabel0)\<close> of the enumeration:
  the given label at that index, or the coordinate value when no labels are given.
\<close>

definition pass_label :: "string list option \<Rightarrow> nat \<times> string \<Rightarrow> string" where
  "pass_label measurement_labels p =
     (case measurement_labels of None \<Rightarrow> snd p | Some ls \<Rightarrow> ls ! fst p)"

text \<open>
  What the data frame holds under \<open>Plant Pixels\<close>: the counts, or the lower edges when
  the label itself is \<open>Plant Pixels\<close>.
\<close>

definition plant_pixels_column :: "fl list \<Rightarrow> string \<Rightarrow> column" where
  "plant_pixels_column yii_img mlabel =
     (if mlabel = ''Plant Pixels'' then FloatCol (butlast (snd (yii_histogram yii_img)))
      else IntCol (fst (yii_histogram yii_img)))"

text \<open>The four observations of one pass, in the order the pass records them.\<close>

definition pass_observations ::
  "yii_da \<Rightarrow> fl list \<Rightarrow> fl list \<Rightarrow> fl list \<Rightarrow> string \<Rightarrow> nat \<Rightarrow> string \<Rightarrow> observation list" where
  "pass_observations yii yii_median yii_mode yii_max label i mlabel =
     [float_observation label (''yii_median_'' @ mlabel) ''median yii value'' (yii_median ! i),
      float_observation label (''yii_mode_'' @ mlabel) ''mode yii value'' (yii_mode ! i),
      float_observation label (''yii_max_'' @ mlabel) ''peak yii value'' (yii_max ! i),
      hist_observation label mlabel (plant_pixels_column (isel_measurement yii i) mlabel)
        (FloatCol (butlast (snd (yii_histogram (isel_measurement yii i)))))]"

text \<open>
  The observations of a whole run of the loop and the figure of its last pass, from the
  efficiency map.
\<close>

definition positive_values :: "yii_da \<Rightarrow> nat \<Rightarrow> fl list" where
  "positive_values yii i = map where_gt0 (isel_measurement yii i)"

definition all_observations :: "yii_da \<Rightarrow> string list option \<Rightarrow> string \<Rightarrow> observation list" where
  "all_observations yii measurement_labels label =
     (let ms = [0..<length (yii_measurement yii)] in
      concat (map (\<lambda>p. pass_observations yii
                          (map (\<lambda>i. nanmedian (positive_values yii i)) ms)
                          (map (\<lambda>i. mode (positive_values yii i)) ms)
                          (map (\<lambda>i. nanmax_value (positive_values yii i)) ms)
                          label (fst p) (pass_label measurement_labels p))
                (enumerate 0 (yii_measurement yii))))"

definition last_figure :: "yii_da \<Rightarrow> string list option \<Rightarrow> hist_fig" where
  "last_figure yii measurement_labels =
     (let n = length (yii_measurement yii) in
      snd (create_histogram (isel_measurement yii (n - 1))
            (pass_label measurement_labels (n - 1, last (yii_measurement yii)))))"

text \<open>The masked, float-cast stack: not-a-number wherever the mask is not positive.\<close>

definition masked_value :: "dataarray \<Rightarrow> ndarray \<Rightarrow> nat \<Rightarrow> nat \<Rightarrow> nat \<Rightarrow> nat \<Rightarrow> fl" where
  "masked_value ps_da msk x y f m = (if 0 < nd_values msk x y then da_values ps_da x y f m else NaN)"

text \<open>A value of the returned efficiency map; \<open>None\<close> when the call raised.\<close>

definition result_value :: "(error + yii_da \<times> hist_fig) \<times> outputs \<Rightarrow> nat \<Rightarrow> nat \<Rightarrow> nat \<Rightarrow> fl option" where
  "result_value res x y m =
     (case fst res of Inl e \<Rightarrow> None | Inr (yii, fig) \<Rightarrow> Some (yii_values yii x y m))"

text \<open>
  The stack of the end-to-end example: 2 rows, 2 columns, the frames \<open>F0\<close> (1 at every
  pixel) and \<open>Fm\<close> (2 at every pixel), one measurement; a mask with every pixel set;
  the empty store; a mask whose first row is masked out; a uint8 mask whose two distinct
  values are 5 and 7; and the efficiency map of the example.
\<close>

definition example_stack :: dataarray where
  "example_stack =
     \<lparr>da_name = ''darkadapted'', da_shape = (2, 2),
      da_frame_label = [''F0'' \<mapsto> 0, ''Fm'' \<mapsto> 1], da_measurement = [''t0''],
      da_values = (\<lambda>x y f m. if f = 0 then Fin 1 else Fin 2)\<rparr>"

definition example_mask :: ndarray where
  "example_mask = \<lparr>nd_shape = (2, 2), nd_dtype = ''uint8'', nd_values = (\<lambda>x y. 1)\<rparr>"

definition no_outputs :: outputs where
  "no_outputs = \<lparr>observations = [], images = []\<rparr>"

definition masked_out_mask :: ndarray where
  "masked_out_mask =
     \<lparr>nd_shape = (2, 2), nd_dtype = ''uint8'', nd_values = (\<lambda>x y. if x = 0 then 0 else 255)\<rparr>"

definition mask_5_7 :: ndarray where
  "mask_5_7 = \<lparr>nd_shape = (2, 2), nd_dtype = ''uint8'', nd_values = (\<lambda>x y. if x = 0 then 5 else 7)\<rparr>"


section \<open>Properties of the histogram builder\<close>

subsection \<open>Rounding to binary64\<close>

lemma exponent_floor_log: "0 < x \<Longrightarrow> exponent x = \<lfloor>log 2 x\<rfloor>"
proof (induction x rule: exponent.induct)
  case (1 x)
  show ?case
  proof (cases "x < 1")
    case True
    have "log 2 (2 * x) = log 2 x + 1" using "1.prems" by (simp add: log_mult)
    then have "\<lfloor>log 2 (2 * x)\<rfloor> = \<lfloor>log 2 x\<rfloor> + 1" by simp
    moreover have "exponent (2 * x) = \<lfloor>log 2 (2 * x)\<rfloor>"
      using "1.IH"(1) "1.prems" True by simp
    ultimately show ?thesis using "1.prems" True by (subst exponent.simps) simp
  next
    case False
    show ?thesis
    proof (cases "2 \<le> x")
      case True
      have "log 2 (x / 2) = log 2 x - 1" using "1.prems" by (simp add: log_divide)
      then have "\<lfloor>log 2 (x / 2)\<rfloor> = \<lfloor>log 2 x\<rfloor> - 1" by simp
      moreover have "exponent (x / 2) = \<lfloor>log 2 (x / 2)\<rfloor>"
        using "1.IH"(2) "1.prems" True False by simp
      ultimately show ?thesis using "1.prems" True False by (subst exponent.simps) simp
    next
      case b: False
      have "0 \<le> log 2 x" using False by simp
      moreover have "log 2 x < 1" using b "1.prems" by (simp add: log_less_iff)
      ultimately have "\<lfloor>log 2 x\<rfloor> = 0" by linarith
      then show ?thesis using "1.prems" False b by (subst exponent.simps) simp
    qed
  qed
qed

lemma pow2_powr: "pow2 e = 2 powr (of_int e)"
proof (cases "0 \<le> e")
  case True
  then show ?thesis by (simp add: pow2_def powr_realpow[symmetric])
next
  case False
  then have "real_of_int e = - real (nat (- e))" by simp
  then have "(2::real) powr (of_int e) = 1 / 2 ^ nat (- e)"
    by (simp only: powr_minus powr_realpow inverse_eq_divide)
  then show ?thesis using False by (simp add: pow2_def)
qed

lemma round64_eq:
  "round64 x =
     (if x = 0 then 0
      else (let q = 2 powr (of_int \<lfloor>log 2 \<bar>x\<bar>\<rfloor> - 52) in rint (x / q) * q))"
  by (simp add: round64_def pow2_powr exponent_floor_log)

lemma rint_error: "\<bar>rint y - y\<bar> \<le> 1 / 2"
proof -
  have "of_int \<lfloor>y\<rfloor> \<le> y" "y < of_int \<lfloor>y\<rfloor> + 1" by linarith+
  then show ?thesis unfolding rint_def Let_def by (auto simp: abs_le_iff)
qed

lemma two_powr_neg: "(2::real) powr (- real k) = 1 / 2 ^ k"
  by (simp add: powr_minus powr_realpow inverse_eq_divide)

lemma round64_error: "\<bar>round64 x - x\<bar> \<le> \<bar>x\<bar> / 2 ^ 53"
proof (cases "x = 0")
  case True
  then show ?thesis by (simp add: round64_eq)
next
  case False
  define e where "e = \<lfloor>log 2 \<bar>x\<bar>\<rfloor>"
  define q :: real where "q = 2 powr (of_int e - 52)"
  have qpos: "0 < q" by (simp add: q_def)
  have r: "round64 x = rint (x / q) * q"
    using False by (simp add: round64_eq q_def e_def Let_def)
  have "of_int e \<le> log 2 \<bar>x\<bar>" by (simp add: e_def)
  then have "(2::real) powr of_int e \<le> \<bar>x\<bar>"
    using False by (simp add: powr_le_iff)
  moreover have "q = 2 powr of_int e / 2 ^ 52"
    by (simp add: q_def powr_diff powr_realpow[symmetric])
  ultimately have qb: "q \<le> \<bar>x\<bar> / 2 ^ 52" by (simp add: divide_right_mono)
  have "round64 x - x = (rint (x / q) - x / q) * q"
    using qpos by (simp add: r left_diff_distrib)
  then have "\<bar>round64 x - x\<bar> = \<bar>rint (x / q) - x / q\<bar> * q"
    using qpos by (simp add: abs_mult)
  also have "\<dots> \<le> (1 / 2) * q"
    using rint_error[of "x / q"] qpos by (intro mult_right_mono) simp_all
  also have "\<dots> \<le> (1 / 2) * (\<bar>x\<bar> / 2 ^ 52)" using qb by simp
  also have "\<dots> = \<bar>x\<bar> / 2 ^ 53" by simp
  finally show ?thesis .
qed

lemma round64_small:
  assumes "1 / 2 ^ k \<le> x" "x < 2 / 2 ^ k"
  shows "round64 x = rint (x * 2 ^ (k + 52)) / 2 ^ (k + 52)"
proof -
  have p: "(0::real) < 1 / 2 ^ k" by simp
  have xpos: "0 < x" using assms(1) p by linarith
  have "(2::real) powr (- real k) \<le> x" using assms(1) by (simp add: two_powr_neg)
  then have l1: "- real k \<le> log 2 x"
    using xpos by (simp add: le_log_iff)
  have "(2::real) powr (- real k + 1) = 2 powr (- real k) * 2 powr 1"
    by (rule powr_add)
  then have "(2::real) powr (- real k + 1) = 2 / 2 ^ k"
    by (simp only: two_powr_neg) simp
  then have "x < (2::real) powr (- real k + 1)" using assms(2) by simp
  then have l2: "log 2 x < - real k + 1"
    using xpos by (simp add: log_less_iff)
  have f: "\<lfloor>log 2 x\<rfloor> = - int k"
    using l1 l2 by (intro floor_unique) simp_all
  have "of_int \<lfloor>log 2 \<bar>x\<bar>\<rfloor> - (52::real) = - real (k + 52)"
    using xpos f by simp
  then have "(2::real) powr (of_int \<lfloor>log 2 \<bar>x\<bar>\<rfloor> - 52) = 1 / 2 ^ (k + 52)"
    by (simp only: two_powr_neg)
  then show ?thesis using xpos by (simp add: round64_eq Let_def)
qed

lemma round64_step: "round64 (1 / 100) = 5764607523034235 / 2 ^ 59"
  by (subst round64_small[where k=7]) (simp_all add: rint_def Let_def)

lemma round64_tenth: "round64 (1 / 10) = 7205759403792794 / 2 ^ 56"
  by (subst round64_small[where k=4]) (simp_all add: rint_def Let_def)

lemma round64_099: "round64 (99 / 100) = 8917127262193582 / 2 ^ 53"
  by (subst round64_small[where k=1]) (simp_all add: rint_def Let_def)

lemma round64_07: "round64 (7 / 10) = 6305039478318694 / 2 ^ 53"
  by (subst round64_small[where k=1]) (simp_all add: rint_def Let_def)

subsection \<open>The bin edges\<close>

lemma bin_edges_length: "length (bin_edges bins) = bins + 1"
  by (simp add: bin_edges_def)

lemma bin_edges_nth:
  "i < bins \<Longrightarrow> bin_edges bins ! i = round64 (real i * round64 (1 / real bins))"
  by (simp add: bin_edges_def nth_append)

lemma bin_edges_last: "bin_edges bins ! bins = 1"
  by (simp add: bin_edges_def nth_append)

lemma butlast_bin_edges:
  "butlast (bin_edges bins) = map (\<lambda>i. round64 (real i * round64 (1 / real bins))) [0..<bins]"
  by (simp add: bin_edges_def)

lemma edge_0: "bin_edges 100 ! 0 = 0"
  by (simp add: bin_edges_nth round64_eq)

lemma edge_10: "bin_edges 100 ! 10 = round64 (1 / 10)"
  unfolding round64_tenth
  by (simp add: bin_edges_nth round64_step, subst round64_small[where k=4])
     (simp_all add: rint_def Let_def)

lemma edge_50: "bin_edges 100 ! 50 = 1 / 2"
  by (simp add: bin_edges_nth round64_step, subst round64_small[where k=1])
     (simp_all add: rint_def Let_def)

lemma edge_99: "bin_edges 100 ! 99 = round64 (99 / 100)"
  unfolding round64_099
  by (simp add: bin_edges_nth round64_step, subst round64_small[where k=1])
     (simp_all add: rint_def Let_def)

text \<open>
  The edges 69 and 70 are the binary64 values that print as 0.6900000000000001 and
  0.7000000000000001.
\<close>

lemma edge_70: "bin_edges 100 ! 70 = 6305039478318695 / 2 ^ 53"
  by (simp add: bin_edges_nth round64_step, subst round64_small[where k=1])
     (simp_all add: rint_def Let_def)

lemma edge_69: "bin_edges 100 ! 69 = 6214967485771285 / 2 ^ 53"
  by (simp add: bin_edges_nth round64_step, subst round64_small[where k=1])
     (simp_all add: rint_def Let_def)

lemma edge_bound:
  assumes "i \<le> 100"
  shows "\<bar>bin_edges 100 ! i - real i / 100\<bar> \<le> 1 / 2 ^ 50"
proof (cases "i = 100")
  case True
  then show ?thesis by (simp add: bin_edges_last)
next
  case False
  with assms have i: "i < 100" by simp
  define c :: real where "c = 5764607523034235 / 2 ^ 59"
  have e: "bin_edges 100 ! i = round64 (real i * c)"
    using i by (simp add: bin_edges_nth round64_step c_def)
  have cd: "\<bar>c - 1 / 100\<bar> \<le> 1 / 2 ^ 59" by (simp add: c_def)
  have ri: "real i \<le> 100" "0 \<le> real i" using i by simp_all
  have "real i * c - real i / 100 = real i * (c - 1 / 100)"
    by (simp add: right_diff_distrib)
  then have "\<bar>real i * c - real i / 100\<bar> = real i * \<bar>c - 1 / 100\<bar>"
    by (simp only: abs_mult abs_of_nat)
  also have "\<dots> \<le> 100 * (1 / 2 ^ 59)"
    using cd ri by (intro mult_mono) simp_all
  finally have d1: "\<bar>real i * c - real i / 100\<bar> \<le> 100 / 2 ^ 59" by simp
  have "c \<le> 1 / 50" by (simp add: c_def)
  then have "real i * c \<le> 100 * (1 / 50)" using ri by (intro mult_mono) (simp_all add: c_def)
  moreover have "0 \<le> real i * c" by (simp add: c_def)
  ultimately have "\<bar>real i * c\<bar> \<le> 2" by simp
  then have d2: "\<bar>round64 (real i * c) - real i * c\<bar> \<le> 2 / 2 ^ 53"
    using round64_error[of "real i * c"] by (simp add: divide_right_mono order_trans)
  have "\<bar>round64 (real i * c) - real i / 100\<bar>
      \<le> \<bar>round64 (real i * c) - real i * c\<bar> + \<bar>real i * c - real i / 100\<bar>"
    by linarith
  also have "\<dots> \<le> 2 / 2 ^ 53 + 100 / 2 ^ 59" using d1 d2 by linarith
  also have "\<dots> \<le> 1 / 2 ^ 50" by simp
  finally show ?thesis by (simp add: e)
qed

lemma edge_mono:
  assumes "i < j" "j \<le> 100"
  shows "bin_edges 100 ! i < bin_edges 100 ! j"
proof -
  have a: "\<bar>bin_edges 100 ! i - real i / 100\<bar> \<le> 1 / 2 ^ 50"
    using assms by (intro edge_bound) simp
  have b: "\<bar>bin_edges 100 ! j - real j / 100\<bar> \<le> 1 / 2 ^ 50"
    using assms by (intro edge_bound) simp
  have "real i + 1 \<le> real j" using assms(1) by linarith
  then have "real i / 100 + 1 / 100 \<le> real j / 100" by simp
  moreover have "(2::real) / 2 ^ 50 < 1 / 100" by simp
  ultimately show ?thesis using a b by linarith
qed

lemma edge_mono_le: "i \<le> j \<Longrightarrow> j \<le> 100 \<Longrightarrow> bin_edges 100 ! i \<le> bin_edges 100 ! j"
  using edge_mono[of i j] by (cases "i = j") (simp_all add: less_imp_le)

subsection \<open>Bins and counts\<close>

lemma in_bin_100:
  assumes "i < 100"
  shows "in_bin (bin_edges 100) i (Fin r) \<longleftrightarrow>
    bin_edges 100 ! i \<le> r \<and> (r < bin_edges 100 ! (i + 1) \<or> (i = 99 \<and> r \<le> 1))"
proof -
  have l: "i + 2 = length (bin_edges 100) \<longleftrightarrow> i = 99"
    unfolding bin_edges_length by arith
  have "in_bin (bin_edges 100) i (Fin r) \<longleftrightarrow>
    bin_edges 100 ! i \<le> r \<and> (r < bin_edges 100 ! (i + 1) \<or> (i = 99 \<and> r \<le> bin_edges 100 ! (i + 1)))"
    by (simp only: in_bin.simps l)
  moreover have "(i = 99 \<and> r \<le> bin_edges 100 ! (i + 1)) \<longleftrightarrow> (i = 99 \<and> r \<le> 1)"
    using bin_edges_last[of 100] by auto
  ultimately show ?thesis by simp
qed

declare in_bin.simps(1) [simp del]

lemma in_bin_range:
  assumes "in_bin (bin_edges 100) i v" "i < 100"
  shows "in_range v"
proof (cases v)
  case (Fin r)
  have lo: "bin_edges 100 ! 0 \<le> bin_edges 100 ! i"
    using assms(2) by (intro edge_mono_le) simp_all
  have hi: "bin_edges 100 ! (i + 1) \<le> bin_edges 100 ! 100"
    using assms(2) by (intro edge_mono_le) simp_all
  from assms Fin have "bin_edges 100 ! i \<le> r" "r < bin_edges 100 ! (i + 1) \<or> r \<le> 1"
    by (auto simp: in_bin_100)
  with lo hi show ?thesis by (auto simp: Fin edge_0 bin_edges_last)
qed (use assms in simp_all)

lemma bin_exists_unique:
  assumes "0 \<le> r" "r \<le> 1"
  shows "\<exists>k<100. \<forall>i<100. in_bin (bin_edges 100) i (Fin r) \<longleftrightarrow> i = k"
proof -
  define K where "K = {i. i < 100 \<and> bin_edges 100 ! i \<le> r}"
  have fin: "finite K" by (simp add: K_def)
  have "0 \<in> K" using assms(1) by (simp add: K_def edge_0)
  then have ne: "K \<noteq> {}" by auto
  define k where "k = Max K"
  have kK: "k \<in> K" unfolding k_def using fin ne by (rule Max_in)
  then have k: "k < 100" "bin_edges 100 ! k \<le> r" by (simp_all add: K_def)
  have top: "r < bin_edges 100 ! (k + 1) \<or> k = 99"
  proof (cases "k = 99")
    case False
    with k(1) have s: "k + 1 < 100" by simp
    have "k + 1 \<notin> K"
    proof
      assume "k + 1 \<in> K"
      then have "k + 1 \<le> k" unfolding k_def using fin by (intro Max_ge)
      then show False by simp
    qed
    with s show ?thesis by (simp add: K_def)
  qed simp
  have "\<forall>i<100. in_bin (bin_edges 100) i (Fin r) \<longleftrightarrow> i = k"
  proof (intro allI impI iffI)
    fix i :: nat assume i: "i < 100" and b: "in_bin (bin_edges 100) i (Fin r)"
    from b i have bi: "bin_edges 100 ! i \<le> r" "r < bin_edges 100 ! (i + 1) \<or> i = 99"
      by (auto simp: in_bin_100)
    then have "i \<in> K" using i by (simp add: K_def)
    then have ik: "i \<le> k" unfolding k_def using fin by (intro Max_ge)
    show "i = k"
    proof (rule ccontr)
      assume "i \<noteq> k"
      with ik have lt: "i < k" by simp
      then have "i \<noteq> 99" using k(1) by simp
      with bi have "r < bin_edges 100 ! (i + 1)" by simp
      moreover have "bin_edges 100 ! (i + 1) \<le> bin_edges 100 ! k"
        using lt k(1) by (intro edge_mono_le) simp_all
      ultimately show False using k(2) by simp
    qed
  next
    fix i :: nat assume "i < 100" "i = k"
    then show "in_bin (bin_edges 100) i (Fin r)"
      using k top assms(2) by (auto simp: in_bin_100)
  qed
  with k(1) show ?thesis by blast
qed

lemma filter_eq_upt: "k < n \<Longrightarrow> filter (\<lambda>i. i = k) [0..<n] = [k]"
  by (induction n) auto

lemma bin_unique:
  "length (filter (\<lambda>i. in_bin (bin_edges 100) i v) [0..<100]) = (if in_range v then 1 else 0)"
proof (cases "in_range v")
  case True
  then obtain r where v: "v = Fin r" and r: "0 \<le> r" "r \<le> 1" by (cases v) simp_all
  from bin_exists_unique[OF r] obtain k where
    k: "k < 100" "\<forall>i<100. in_bin (bin_edges 100) i (Fin r) \<longleftrightarrow> i = k" by blast
  have "filter (\<lambda>i. in_bin (bin_edges 100) i v) [0..<100] = filter (\<lambda>i. i = k) [0..<100]"
    unfolding v by (rule filter_cong[OF refl]) (use k(2) in simp)
  then show ?thesis using True k(1) by (simp add: filter_eq_upt)
next
  case False
  have "filter (\<lambda>i. in_bin (bin_edges 100) i v) [0..<100] = []"
    using False in_bin_range[of _ v] by (auto simp: filter_empty_conv)
  then show ?thesis using False by simp
qed

lemma in_bin_index:
  assumes "in_bin (bin_edges 100) k (Fin r)" "k < 100" "i < 100"
  shows "in_bin (bin_edges 100) i (Fin r) \<longleftrightarrow> i = k"
proof -
  have "in_range (Fin r)" using in_bin_range[OF assms(1,2)] .
  then have r: "0 \<le> r" "r \<le> 1" by simp_all
  from bin_exists_unique[OF r] obtain j where
    j: "j < 100" "\<forall>i<100. in_bin (bin_edges 100) i (Fin r) \<longleftrightarrow> i = j" by blast
  with assms(1,2) have "k = j" by blast
  with j assms(3) show ?thesis by blast
qed

lemma histogram_length: "length (fst (histogram a bins)) = bins"
  by (simp add: histogram_def Let_def)

lemma histogram_nth:
  "i < bins \<Longrightarrow> fst (histogram a bins) ! i = length (filter (in_bin (bin_edges bins) i) a)"
  by (simp add: histogram_def Let_def)

lemma sum_list_count_swap:
  "sum_list (map (\<lambda>i. length (filter (P i) xs)) js) = sum_list (map (\<lambda>x. length (filter (\<lambda>i. P i x) js)) xs)"
proof (induction xs)
  case Nil
  then show ?case by simp
next
  case (Cons x xs)
  have "sum_list (map (\<lambda>i. length (filter (P i) (x # xs))) js)
      = sum_list (map (\<lambda>i. (if P i x then 1 else 0) + length (filter (P i) xs)) js)"
    by (rule arg_cong[where f=sum_list]) (simp)
  also have "\<dots> = sum_list (map (\<lambda>i. if P i x then 1 else 0) js) + sum_list (map (\<lambda>i. length (filter (P i) xs)) js)"
    by (simp add: sum_list_addf)
  also have "sum_list (map (\<lambda>i. if P i x then 1 else 0) js) = length (filter (\<lambda>i. P i x) js)"
    by (induction js) simp_all
  finally show ?case using Cons.IH by simp
qed

lemma sum_list_indicator: "sum_list (map (\<lambda>x. if P x then 1 else 0) xs) = length (filter P xs)"
  by (induction xs) simp_all

lemma histogram_sum: "sum_list (fst (histogram a 100)) = length (filter in_range a)"
proof -
  have "sum_list (fst (histogram a 100)) =
      sum_list (map (\<lambda>x. length (filter (\<lambda>i. in_bin (bin_edges 100) i x) [0..<100])) a)"
    unfolding histogram_def Let_def fst_conv by (rule sum_list_count_swap)
  also have "\<dots> = sum_list (map (\<lambda>x. if in_range x then 1 else 0) a)"
    by (simp only: bin_unique)
  finally show ?thesis by (simp only: sum_list_indicator)
qed

lemma yii_histogram_length: "length (fst (yii_histogram vals)) = 100"
  by (simp add: yii_histogram_def histogram_length)

lemma yii_histogram_edges: "snd (yii_histogram vals) = bin_edges 100"
  by (simp add: yii_histogram_def histogram_def Let_def)

lemma yii_histogram_nth:
  "i < 100 \<Longrightarrow> fst (yii_histogram vals) ! i =
     length (filter (\<lambda>v. fl_gt0 v \<and> in_bin (bin_edges 100) i v) vals)"
  by (simp add: yii_histogram_def histogram_nth conj_commute)

lemma yii_histogram_sum:
  "sum_list (fst (yii_histogram vals)) = length (filter (\<lambda>v. fl_gt0 v \<and> in_range v) vals)"
  by (simp add: yii_histogram_def histogram_sum conj_commute)

lemma create_histogram_fst:
  "fst (create_histogram vals lbl) =
     (Map.empty(''Plant Pixels'' \<mapsto> IntCol (fst (yii_histogram vals))))
       (lbl \<mapsto> FloatCol (butlast (snd (yii_histogram vals))))"
  by (simp add: create_histogram_def split_beta Let_def)

lemma create_histogram_peak:
  "peak_bin_value (snd (create_histogram vals lbl)) =
     snd (yii_histogram vals) ! argmax (fst (yii_histogram vals))"
  by (simp add: create_histogram_def split_beta Let_def)

lemma example_bins:
  "in_bin (bin_edges 100) 10 (Fin (round64 (1 / 10)))"
  "in_bin (bin_edges 100) 50 (Fin (1 / 2))"
  "in_bin (bin_edges 100) 99 (Fin (round64 (99 / 100)))"
proof -
  have "bin_edges 100 ! 10 < bin_edges 100 ! 11" by (rule edge_mono) simp_all
  then show "in_bin (bin_edges 100) 10 (Fin (round64 (1 / 10)))"
    by (simp add: in_bin_100 edge_10)
  have "bin_edges 100 ! 50 < bin_edges 100 ! 51" by (rule edge_mono) simp_all
  then show "in_bin (bin_edges 100) 50 (Fin (1 / 2))"
    by (simp add: in_bin_100 edge_50)
  show "in_bin (bin_edges 100) 99 (Fin (round64 (99 / 100)))"
    by (simp add: in_bin_100 edge_99) (simp add: round64_099)
qed

text \<open>
  The binary64 value of 0.7 lies below the edge 70, so it is counted in bin 69.
\<close>

lemma bin_of_07: "in_bin (bin_edges 100) 69 (Fin (round64 (7 / 10)))"
  by (simp add: in_bin_100 edge_69 edge_70 round64_07)

lemma example_counts:
  "fst (yii_histogram [Fin (round64 (1 / 10)), Fin (round64 (1 / 10)), Fin (1 / 2),
      Fin (round64 (99 / 100))]) = (replicate 100 0)[10 := 2, 50 := 1, 99 := 1]"
proof (rule nth_equalityI)
  show "length (fst (yii_histogram [Fin (round64 (1 / 10)), Fin (round64 (1 / 10)), Fin (1 / 2),
      Fin (round64 (99 / 100))])) = length ((replicate 100 (0::nat))[10 := 2, 50 := 1, 99 := 1])"
    by (simp add: yii_histogram_length)
next
  fix i assume "i < length (fst (yii_histogram [Fin (round64 (1 / 10)), Fin (round64 (1 / 10)),
      Fin (1 / 2), Fin (round64 (99 / 100))]))"
  then have i: "i < 100" by (simp add: yii_histogram_length)
  have a: "\<And>j. j < 100 \<Longrightarrow> in_bin (bin_edges 100) j (Fin (round64 (1 / 10))) \<longleftrightarrow> j = 10"
    using in_bin_index[OF example_bins(1)] by simp
  have b: "\<And>j. j < 100 \<Longrightarrow> in_bin (bin_edges 100) j (Fin (1 / 2)) \<longleftrightarrow> j = 50"
    using in_bin_index[OF example_bins(2)] by simp
  have c: "\<And>j. j < 100 \<Longrightarrow> in_bin (bin_edges 100) j (Fin (round64 (99 / 100))) \<longleftrightarrow> j = 99"
    using in_bin_index[OF example_bins(3)] by simp
  have p: "0 < round64 (1 / 10)" "0 < round64 (99 / 100)"
    by (simp_all add: round64_tenth round64_099)
  show "fst (yii_histogram [Fin (round64 (1 / 10)), Fin (round64 (1 / 10)), Fin (1 / 2),
      Fin (round64 (99 / 100))]) ! i = (replicate 100 0)[10 := 2, 50 := 1, 99 := 1] ! i"
    using i p by (simp add: yii_histogram_nth nth_list_update a b c)
qed

lemma argmax_less: "xs \<noteq> [] \<Longrightarrow> argmax xs < length xs"
proof (induction xs)
  case Nil
  then show ?case by simp
next
  case (Cons x xs)
  show ?case
  proof (cases "list_all (\<lambda>y. y \<le> x) xs")
    case True
    then show ?thesis by simp
  next
    case False
    then have "xs \<noteq> []" by auto
    with Cons.IH False show ?thesis by simp
  qed
qed

lemma argmax_greatest: "i < length xs \<Longrightarrow> xs ! i \<le> xs ! argmax xs"
proof (induction xs arbitrary: i)
  case Nil
  then show ?case by simp
next
  case (Cons x xs)
  show ?case
  proof (cases "list_all (\<lambda>y. y \<le> x) xs")
    case True
    then show ?thesis using Cons.prems by (cases i) (auto simp: list_all_iff)
  next
    case False
    then obtain y where y: "y \<in> set xs" "x < y" by (auto simp: list_all_iff)
    then obtain j where j: "j < length xs" "xs ! j = y" by (auto simp: in_set_conv_nth)
    have "x \<le> xs ! argmax xs" using Cons.IH[OF j(1)] j(2) y(2) by simp
    then show ?thesis using False Cons.prems Cons.IH by (cases i) auto
  qed
qed

lemma argmax_first: "i < argmax xs \<Longrightarrow> xs ! i < xs ! argmax xs"
proof (induction xs arbitrary: i)
  case Nil
  then show ?case by simp
next
  case (Cons x xs)
  show ?case
  proof (cases "list_all (\<lambda>y. y \<le> x) xs")
    case True
    then show ?thesis using Cons.prems by simp
  next
    case False
    then obtain y where y: "y \<in> set xs" "x < y" by (auto simp: list_all_iff)
    then obtain j where j: "j < length xs" "xs ! j = y" by (auto simp: in_set_conv_nth)
    have "x < xs ! argmax xs" using argmax_greatest[OF j(1)] j(2) y(2) by simp
    then show ?thesis using False Cons.prems Cons.IH by (cases i) auto
  qed
qed

lemma argmax_replicate: "argmax (replicate n c) = 0"
  by (cases n) (simp_all add: list_all_iff)


text \<open>
  C6, amended. The builder bins into exactly 100 bins over the fixed domain from 0 to 1:
  the 101 edges are the binary64 values \<open>np.linspace\<close> computes, the first is 0, the
  last is 1, and the edge \<open>i\<close> is within \<open>2 ^ -50\<close> of \<open>i / 100\<close>, so the bins have equal
  width up to rounding. The count of bin \<open>i\<close> is the number of positive input values
  between the edges \<open>i\<close> and \<open>i + 1\<close>, no value outside the domain is in any bin, and
  the sum of the counts is the number of input values \<open>v\<close> with \<open>0 < v\<close> and \<open>v \<le> 1\<close>:
  the builder's own filter drops zero, which lies in the domain. The counts are the
  table's column \<open>Plant Pixels\<close> for every other label, and the lower edges are the
  column named by the label. For the binary64 values of 0.1, 0.1, 0.5 and 0.99 the bin
  of 0.1 (bin 10) has count 2, the bins of 0.5 and 0.99 (bins 50 and 99) have count 1
  and every other bin has count 0.
\<close>

theorem create_histogram_counts:
  "length (fst (yii_histogram vals)) = 100
   \<and> snd (yii_histogram vals) = map (\<lambda>i. round64 (real i * round64 (1 / 100))) [0..<100] @ [1]
   \<and> (\<forall>i\<le>100. \<bar>snd (yii_histogram vals) ! i - real i / 100\<bar> \<le> 1 / 2 ^ 50)
   \<and> (\<forall>i<100. fst (yii_histogram vals) ! i =
         length (filter (\<lambda>v. fl_gt0 v \<and> in_bin (snd (yii_histogram vals)) i v) vals))
   \<and> (\<forall>i<100. \<forall>v. in_bin (snd (yii_histogram vals)) i v \<longrightarrow> in_range v)
   \<and> sum_list (fst (yii_histogram vals)) = length (filter (\<lambda>v. fl_gt0 v \<and> in_range v) vals)
   \<and> (lbl \<noteq> ''Plant Pixels'' \<longrightarrow>
        fst (create_histogram vals lbl) ''Plant Pixels'' = Some (IntCol (fst (yii_histogram vals))))
   \<and> fst (create_histogram vals lbl) lbl = Some (FloatCol (butlast (snd (yii_histogram vals))))
   \<and> fst (yii_histogram [Fin (round64 (1 / 10)), Fin (round64 (1 / 10)), Fin (1 / 2),
        Fin (round64 (99 / 100))]) = (replicate 100 0)[10 := 2, 50 := 1, 99 := 1]
   \<and> in_bin (bin_edges 100) 10 (Fin (round64 (1 / 10)))
   \<and> in_bin (bin_edges 100) 50 (Fin (1 / 2))
   \<and> in_bin (bin_edges 100) 99 (Fin (round64 (99 / 100)))"
proof -
  have r: "\<forall>i<100. \<forall>v. in_bin (snd (yii_histogram vals)) i v \<longrightarrow> in_range v"
    unfolding yii_histogram_edges using in_bin_range by blast
  have e: "snd (yii_histogram vals) = map (\<lambda>i. round64 (real i * round64 (1 / 100))) [0..<100] @ [1]"
    by (simp add: yii_histogram_edges bin_edges_def)
  have d: "\<forall>i\<le>100. \<bar>snd (yii_histogram vals) ! i - real i / 100\<bar> \<le> 1 / 2 ^ 50"
    unfolding yii_histogram_edges using edge_bound by blast
  have n: "\<forall>i<100. fst (yii_histogram vals) ! i =
         length (filter (\<lambda>v. fl_gt0 v \<and> in_bin (snd (yii_histogram vals)) i v) vals)"
    unfolding yii_histogram_edges using yii_histogram_nth by blast
  have t: "fst (create_histogram vals lbl) lbl = Some (FloatCol (butlast (snd (yii_histogram vals))))"
    by (simp add: create_histogram_fst)
  have p: "lbl \<noteq> ''Plant Pixels'' \<longrightarrow>
        fst (create_histogram vals lbl) ''Plant Pixels'' = Some (IntCol (fst (yii_histogram vals)))"
    by (simp add: create_histogram_fst)
  show ?thesis
    using r e d n t p example_bins example_counts yii_histogram_length yii_histogram_sum
    by blast
qed

text \<open>
  An instance: five values, of which the binary64 value of 0.1 and 1 are counted; 0, 2
  and not-a-number are not.
\<close>

theorem create_histogram_counts_witness:
  "sum_list (fst (yii_histogram [Fin (round64 (1 / 10)), Fin 0, Fin 2, NaN, Fin 1])) = 2
   \<and> ''t0'' \<noteq> ''Plant Pixels''
   \<and> fst (create_histogram [Fin (round64 (1 / 10)), Fin 0, Fin 2, NaN, Fin 1] ''t0'') ''Plant Pixels''
       = Some (IntCol (fst (yii_histogram [Fin (round64 (1 / 10)), Fin 0, Fin 2, NaN, Fin 1])))
   \<and> in_bin (bin_edges 100) 10 (Fin (round64 (1 / 10))) \<and> in_range (Fin (round64 (1 / 10)))
   \<and> in_range (Fin 1) \<and> \<not> in_range (Fin 2) \<and> \<not> fl_gt0 (Fin 0)"
  using create_histogram_counts[of "[Fin (round64 (1 / 10)), Fin 0, Fin 2, NaN, Fin 1]" "''t0''"]
  by (simp add: round64_tenth)

text \<open>
  C6 as stated fails on the single value 0: it lies in the domain, and no bin counts it.
\<close>

theorem create_histogram_counts_counterexample:
  "in_range (Fin 0) \<and> sum_list (fst (yii_histogram [Fin 0])) = 0
   \<and> length (filter in_range [Fin 0]) = 1"
  by (simp add: yii_histogram_sum)

subsection \<open>The peak bin\<close>

lemma tie_counts:
  assumes "i < 100"
  shows "fst (yii_histogram [Fin (1 / 2), Fin (round64 (1 / 10))]) ! i =
    (if i = 10 \<or> i = 50 then 1 else 0)"
proof -
  have a: "\<And>j. j < 100 \<Longrightarrow> in_bin (bin_edges 100) j (Fin (round64 (1 / 10))) \<longleftrightarrow> j = 10"
    using in_bin_index[OF example_bins(1)] by simp
  have b: "\<And>j. j < 100 \<Longrightarrow> in_bin (bin_edges 100) j (Fin (1 / 2)) \<longleftrightarrow> j = 50"
    using in_bin_index[OF example_bins(2)] by simp
  have p: "0 < round64 (1 / 10)" by (simp add: round64_tenth)
  show ?thesis using assms p by (simp add: yii_histogram_nth a b)
qed

text \<open>
  C10. The number in the peak-bin annotation is the lower edge of a bin \<open>k\<close>, the binary64
  value of \<open>k\<close> times the step, within \<open>2 ^ -50\<close> of \<open>k / 100\<close>; the count of that bin is
  the highest and strictly above the count of every bin before it: of several bins with
  the highest count it is the first. For an input with no positive value every count is
  0 and the annotated edge is 0.
\<close>

theorem create_histogram_peak_bin:
  "(\<exists>k<100. peak_bin_value (snd (create_histogram vals lbl)) = snd (yii_histogram vals) ! k
      \<and> snd (yii_histogram vals) ! k = round64 (real k * round64 (1 / 100))
      \<and> \<bar>peak_bin_value (snd (create_histogram vals lbl)) - real k / 100\<bar> \<le> 1 / 2 ^ 50
      \<and> (\<forall>i<100. fst (yii_histogram vals) ! i \<le> fst (yii_histogram vals) ! k)
      \<and> (\<forall>i<k. fst (yii_histogram vals) ! i < fst (yii_histogram vals) ! k))
   \<and> ((\<forall>v\<in>set vals. \<not> fl_gt0 v) \<longrightarrow>
        fst (yii_histogram vals) = replicate 100 0
        \<and> peak_bin_value (snd (create_histogram vals lbl)) = 0)"
proof
  define h where "h = fst (yii_histogram vals)"
  define k where "k = argmax h"
  have len: "length h = 100" by (simp add: h_def yii_histogram_length)
  then have "h \<noteq> []" by auto
  then have k: "k < 100" using argmax_less[of h] len by (simp add: k_def)
  have pk: "peak_bin_value (snd (create_histogram vals lbl)) = snd (yii_histogram vals) ! k"
    by (simp add: create_histogram_peak h_def k_def)
  have ed: "snd (yii_histogram vals) ! k = round64 (real k * round64 (1 / 100))"
    using k bin_edges_nth[of k 100] by (simp add: yii_histogram_edges)
  have bd: "\<bar>peak_bin_value (snd (create_histogram vals lbl)) - real k / 100\<bar> \<le> 1 / 2 ^ 50"
    unfolding pk yii_histogram_edges using k by (intro edge_bound) simp
  have mx: "\<forall>i<100. h ! i \<le> h ! k"
    using argmax_greatest[of _ h] len by (simp add: k_def)
  have fi: "\<forall>i<k. h ! i < h ! k"
    using argmax_first[of _ h] by (simp add: k_def)
  show "\<exists>k<100. peak_bin_value (snd (create_histogram vals lbl)) = snd (yii_histogram vals) ! k
      \<and> snd (yii_histogram vals) ! k = round64 (real k * round64 (1 / 100))
      \<and> \<bar>peak_bin_value (snd (create_histogram vals lbl)) - real k / 100\<bar> \<le> 1 / 2 ^ 50
      \<and> (\<forall>i<100. fst (yii_histogram vals) ! i \<le> fst (yii_histogram vals) ! k)
      \<and> (\<forall>i<k. fst (yii_histogram vals) ! i < fst (yii_histogram vals) ! k)"
    using k pk ed bd mx fi unfolding h_def by blast
next
  show "(\<forall>v\<in>set vals. \<not> fl_gt0 v) \<longrightarrow>
        fst (yii_histogram vals) = replicate 100 0
        \<and> peak_bin_value (snd (create_histogram vals lbl)) = 0"
  proof
    assume a: "\<forall>v\<in>set vals. \<not> fl_gt0 v"
    then have f: "filter fl_gt0 vals = []" by (simp add: filter_empty_conv)
    have z: "fst (yii_histogram vals) = replicate 100 0"
      by (simp add: yii_histogram_def histogram_def Let_def f map_replicate_const)
    show "fst (yii_histogram vals) = replicate 100 0
        \<and> peak_bin_value (snd (create_histogram vals lbl)) = 0"
      by (simp add: z create_histogram_peak argmax_replicate yii_histogram_edges edge_0)
  qed
qed

text \<open>
  Instances: three values, none of them positive, give the edge 0; the values 0.5 and 0.1
  (in binary64) put one value each into the bins 50 and 10, and the annotated edge is
  the one of bin 10, the first of the two: the binary64 value of 0.1.
\<close>

theorem create_histogram_peak_bin_witness:
  "\<not> fl_gt0 (Fin (- 1)) \<and> \<not> fl_gt0 NaN \<and> \<not> fl_gt0 (Fin 0)
   \<and> fst (yii_histogram [Fin (- 1), NaN, Fin 0]) = replicate 100 0
   \<and> peak_bin_value (snd (create_histogram [Fin (- 1), NaN, Fin 0] ''t0'')) = 0
   \<and> fst (yii_histogram [Fin (1 / 2), Fin (round64 (1 / 10))]) ! 10 = 1
   \<and> fst (yii_histogram [Fin (1 / 2), Fin (round64 (1 / 10))]) ! 50 = 1
   \<and> peak_bin_value (snd (create_histogram [Fin (1 / 2), Fin (round64 (1 / 10))] ''t0''))
       = round64 (1 / 10)"
proof -
  from create_histogram_peak_bin[of "[Fin (1 / 2), Fin (round64 (1 / 10))]" "''t0''"]
  obtain k where k: "k < 100"
      "peak_bin_value (snd (create_histogram [Fin (1 / 2), Fin (round64 (1 / 10))] ''t0'')) =
         snd (yii_histogram [Fin (1 / 2), Fin (round64 (1 / 10))]) ! k"
      "\<forall>i<100. fst (yii_histogram [Fin (1 / 2), Fin (round64 (1 / 10))]) ! i
          \<le> fst (yii_histogram [Fin (1 / 2), Fin (round64 (1 / 10))]) ! k"
      "\<forall>i<k. fst (yii_histogram [Fin (1 / 2), Fin (round64 (1 / 10))]) ! i
          < fst (yii_histogram [Fin (1 / 2), Fin (round64 (1 / 10))]) ! k"
    by blast
  have "fst (yii_histogram [Fin (1 / 2), Fin (round64 (1 / 10))]) ! 10
      \<le> fst (yii_histogram [Fin (1 / 2), Fin (round64 (1 / 10))]) ! k"
    using k(3) by simp
  then have c: "k = 10 \<or> k = 50"
    using k(1) tie_counts[of 10] tie_counts[of k] by (simp split: if_splits)
  have "k \<noteq> 50"
  proof
    assume "k = 50"
    then have "fst (yii_histogram [Fin (1 / 2), Fin (round64 (1 / 10))]) ! 10
        < fst (yii_histogram [Fin (1 / 2), Fin (round64 (1 / 10))]) ! 50"
      using k(4) by simp
    then show False using tie_counts[of 10] tie_counts[of 50] by simp
  qed
  with c have "k = 10" by simp
  then have p: "peak_bin_value (snd (create_histogram [Fin (1 / 2), Fin (round64 (1 / 10))] ''t0''))
       = round64 (1 / 10)"
    using k(2) by (simp add: yii_histogram_edges edge_10)
  from create_histogram_peak_bin[of "[Fin (- 1), NaN, Fin 0]" "''t0''"] p
  show ?thesis using tie_counts[of 10] tie_counts[of 50] by simp
qed

section \<open>Properties of the analyzer\<close>

subsection \<open>The loop and a successful call\<close>

lemma create_histogram_plant_pixels:
  "fst (create_histogram vals lbl) ''Plant Pixels'' = Some (plant_pixels_column vals lbl)"
  by (simp add: create_histogram_fst plant_pixels_column_def)

lemma create_histogram_label:
  "fst (create_histogram vals lbl) lbl = Some (FloatCol (butlast (snd (yii_histogram vals))))"
  by (simp add: create_histogram_fst)

lemma loop_body_ok:
  assumes "\<forall>ls. measurement_labels = Some ls \<longrightarrow> i < length ls"
  shows "loop_body yii yii_median yii_mode yii_max measurement_labels label i mlabel0 outs =
    (Inr (snd (create_histogram (isel_measurement yii i) (pass_label measurement_labels (i, mlabel0)))),
     outs\<lparr>observations := observations outs @
        pass_observations yii yii_median yii_mode yii_max label i (pass_label measurement_labels (i, mlabel0))\<rparr>)"
proof (cases measurement_labels)
  case None
  show ?thesis
    unfolding loop_body_def None pass_label_def
    by (simp add: split_beta Let_def create_histogram_plant_pixels create_histogram_label
        add_observation_def pass_observations_def)
next
  case (Some ls)
  with assms have "i < length ls" by simp
  then show ?thesis
    unfolding loop_body_def Some pass_label_def
    by (simp add: split_beta Let_def create_histogram_plant_pixels create_histogram_label
        add_observation_def pass_observations_def)
qed

lemma measurement_loop_ok:
  assumes "\<forall>p\<in>set ps. \<forall>ls. measurement_labels = Some ls \<longrightarrow> fst p < length ls"
  shows "measurement_loop yii yii_median yii_mode yii_max measurement_labels label ps fig outs =
    (Inr (if ps = [] then fig
          else Some (snd (create_histogram (isel_measurement yii (fst (last ps)))
                       (pass_label measurement_labels (last ps))))),
     outs\<lparr>observations := observations outs @
        concat (map (\<lambda>p. pass_observations yii yii_median yii_mode yii_max label (fst p)
                       (pass_label measurement_labels p)) ps)\<rparr>)"
  using assms
proof (induction ps arbitrary: fig outs)
  case Nil
  then show ?case by simp
next
  case (Cons p ps)
  obtain i mlabel0 where p: "p = (i, mlabel0)" by (cases p)
  have ok: "\<forall>ls. measurement_labels = Some ls \<longrightarrow> i < length ls"
    using Cons.prems p by simp
  have rest: "\<forall>p\<in>set ps. \<forall>ls. measurement_labels = Some ls \<longrightarrow> fst p < length ls"
    using Cons.prems by simp
  show ?case
    unfolding p
    by (simp add: loop_body_ok[OF ok] Cons.IH[OF rest])
qed

lemma length_ravel: "length (ravel shape f) = fst shape * snd shape"
  by (simp add: ravel_def length_concat comp_def sum_list_triv)

lemma collect_Inr: "collect (map (\<lambda>i. Inr (g i)) xs) = Inr (map g xs)"
  by (induction xs) simp_all

lemma compute_statistics_ok:
  assumes "yii_measurement yii \<noteq> []" "0 < fst (yii_shape yii)" "0 < snd (yii_shape yii)"
  shows "compute_statistics yii =
     Inr (map (\<lambda>i. nanmedian (positive_values yii i)) [0..<length (yii_measurement yii)],
          map (\<lambda>i. nanmax_value (positive_values yii i)) [0..<length (yii_measurement yii)],
          map (\<lambda>i. mode (positive_values yii i)) [0..<length (yii_measurement yii)])"
proof -
  have "length (positive_values yii i) \<noteq> 0" for i
    using assms(2,3) by (simp add: positive_values_def isel_measurement_def length_ravel)
  then have n: "nanmax (positive_values yii i) = Inr (nanmax_value (positive_values yii i))" for i
    by (simp add: nanmax_def)
  show ?thesis
    using assms(1)
    by (simp add: compute_statistics_def groupby_measurement_def Let_def
        positive_values_def[symmetric] n collect_Inr)
qed

lemma compute_statistics_empty:
  "yii_measurement yii = [] \<Longrightarrow> compute_statistics yii = Inl ValueError"
  by (simp add: compute_statistics_def groupby_measurement_def)

lemma compute_statistics_empty_grid:
  assumes "fst (yii_shape yii) = 0 \<or> snd (yii_shape yii) = 0"
  shows "compute_statistics yii = Inl ValueError"
proof (cases "yii_measurement yii = []")
  case True
  then show ?thesis by (rule compute_statistics_empty)
next
  case False
  have e: "positive_values yii i = []" for i
    using assms by (auto simp: positive_values_def isel_measurement_def ravel_def)
  have u: "[0..<length (yii_measurement yii)] = 0 # [1..<length (yii_measurement yii)]"
    using False by (simp add: upt_conv_Cons)
  show ?thesis
    using False
    by (simp add: compute_statistics_def groupby_measurement_def Let_def
        positive_values_def[symmetric] e nanmax_def u del: upt_Suc)
qed

lemma calc_yii_coords:
  "calc_yii da hi lo = Inr yii \<Longrightarrow> yii_measurement yii = da_measurement da \<and> yii_shape yii = da_shape da"
  by (auto simp: calc_yii_def split: sum.splits)

lemma compute_yii_coords:
  assumes "compute_yii ps_da msk = Inr (Some yii)"
  shows "yii_measurement yii = da_measurement ps_da \<and> yii_shape yii = da_shape ps_da"
proof -
  have w: "da_measurement (where_mask ps_da msk) = da_measurement ps_da"
          "da_shape (where_mask ps_da msk) = da_shape ps_da"
    by (simp_all add: where_mask_def)
  from assms show ?thesis
    unfolding compute_yii_def Let_def
    by (auto split: if_splits sum.splits dest!: calc_yii_coords simp: w)
qed

lemma enumerate_Nil_iff: "enumerate n xs = [] \<longleftrightarrow> xs = []"
  by (cases xs) simp_all

lemma last_enumerate: "xs \<noteq> [] \<Longrightarrow> last (enumerate n xs) = (n + length xs - 1, last xs)"
proof (induction xs arbitrary: n)
  case Nil
  then show ?case by simp
next
  case (Cons x xs)
  show ?case
  proof (cases "xs = []")
    case True
    then show ?thesis by simp
  next
    case False
    then show ?thesis using Cons.IH[OF False, of "Suc n"] by (simp add: enumerate_Nil_iff)
  qed
qed

lemma fst_set_enumerate: "p \<in> set (enumerate n xs) \<Longrightarrow> fst p < n + length xs"
  by (auto simp: enumerate_eq_zip in_set_zip)

lemma analyze_yii_ok:
  assumes shape: "nd_shape msk = da_shape ps_da"
    and bin: "length (unique msk) \<le> 2" and dt: "nd_dtype msk = ''uint8''"
    and lab: "\<forall>ls. measurement_labels = Some ls \<longrightarrow> length ls = length (da_measurement ps_da)"
    and yii: "compute_yii ps_da msk = Inr (Some yii)"
    and ne: "da_measurement ps_da \<noteq> []"
    and grid: "0 < fst (da_shape ps_da)" "0 < snd (da_shape ps_da)"
  shows "analyze_yii ps_da msk measurement_labels label outs =
    (Inr (yii, last_figure yii measurement_labels),
     outs\<lparr>observations := observations outs @ all_observations yii measurement_labels label,
          images := images outs @ [yii]\<rparr>)"
proof -
  have ms: "yii_measurement yii = da_measurement ps_da"
    using compute_yii_coords[OF yii] by simp
  have c3: "\<not> (case measurement_labels of None \<Rightarrow> False
               | Some ls \<Rightarrow> length ls \<noteq> length (da_measurement ps_da))"
    using lab by (cases measurement_labels) simp_all
  have idx: "\<forall>p\<in>set (enumerate 0 (da_measurement ps_da)).
               \<forall>ls. measurement_labels = Some ls \<longrightarrow> fst p < length ls"
    using lab fst_set_enumerate[of _ 0 "da_measurement ps_da"] by auto
  have en: "enumerate 0 (da_measurement ps_da) \<noteq> []"
    using ne by (simp add: enumerate_Nil_iff)
  have ne': "yii_measurement yii \<noteq> []" using ne ms by simp
  have grid': "0 < fst (yii_shape yii)" "0 < snd (yii_shape yii)"
    using compute_yii_coords[OF yii] grid by simp_all
  show ?thesis
    unfolding analyze_yii_def
    using shape bin dt c3 
    by (simp add: yii compute_statistics_ok[OF ne' grid'] measurement_loop_ok[OF idx] en
        last_enumerate[OF ne] last_figure_def all_observations_def ms Let_def)
qed

lemma analyze_yii_success:
  assumes "analyze_yii ps_da msk measurement_labels label outs = (Inr (yii, fig), outs')"
  shows "nd_shape msk = da_shape ps_da \<and> length (unique msk) \<le> 2 \<and> nd_dtype msk = ''uint8''
    \<and> (\<forall>ls. measurement_labels = Some ls \<longrightarrow> length ls = length (da_measurement ps_da))
    \<and> compute_yii ps_da msk = Inr (Some yii) \<and> da_measurement ps_da \<noteq> []
    \<and> 0 < fst (da_shape ps_da) \<and> 0 < snd (da_shape ps_da)"
proof -
  have 1: "nd_shape msk = da_shape ps_da"
    using assms unfolding analyze_yii_def fatal_error_def by (auto split: if_splits)
  have 2: "length (unique msk) \<le> 2 \<and> nd_dtype msk = ''uint8''"
    using assms 1 unfolding analyze_yii_def fatal_error_def by (auto split: if_splits)
  have 3: "\<forall>ls. measurement_labels = Some ls \<longrightarrow> length ls = length (da_measurement ps_da)"
    using assms 1 2 unfolding analyze_yii_def fatal_error_def by (auto split: if_splits)
  have c3: "\<not> (case measurement_labels of None \<Rightarrow> False
               | Some ls \<Rightarrow> length ls \<noteq> length (da_measurement ps_da))"
    using 3 by (cases measurement_labels) simp_all
  obtain y where y: "compute_yii ps_da msk = Inr (Some y)"
    using assms 1 2 c3 unfolding analyze_yii_def
    by (auto split: sum.splits option.splits)
  have ms: "yii_measurement y = da_measurement ps_da"
    using compute_yii_coords[OF y] by simp
  have ne: "da_measurement ps_da \<noteq> []"
  proof
    assume "da_measurement ps_da = []"
    then have "compute_statistics y = Inl ValueError"
      using ms by (simp add: compute_statistics_empty)
    then show False
      using assms 1 2 c3 y unfolding analyze_yii_def by simp
  qed
  have grid: "0 < fst (da_shape ps_da) \<and> 0 < snd (da_shape ps_da)"
  proof (rule ccontr)
    assume "\<not> (0 < fst (da_shape ps_da) \<and> 0 < snd (da_shape ps_da))"
    then have "fst (yii_shape y) = 0 \<or> snd (yii_shape y) = 0"
      using compute_yii_coords[OF y] by auto
    then have "compute_statistics y = Inl ValueError"
      by (rule compute_statistics_empty_grid)
    then show False
      using assms 1 2 c3 y unfolding analyze_yii_def by simp
  qed
  have "analyze_yii ps_da msk measurement_labels label outs =
    (Inr (y, last_figure y measurement_labels),
     outs\<lparr>observations := observations outs @ all_observations y measurement_labels label,
          images := images outs @ [y]\<rparr>)"
    using 1 2 3 y ne grid by (intro analyze_yii_ok) simp_all
  with assms have "y = yii" by simp
  with 1 2 3 y ne grid show ?thesis by simp
qed

subsection \<open>The efficiency formula\<close>

lemma calc_yii_eq:
  "calc_yii da hi lo =
     (case da_frame_label da hi of
        None \<Rightarrow> Inl (KeyError hi)
      | Some fhi \<Rightarrow>
          (case da_frame_label da lo of
             None \<Rightarrow> Inl (KeyError lo)
           | Some flo \<Rightarrow>
               Inr \<lparr>yii_shape = da_shape da, yii_measurement = da_measurement da,
                    yii_values = (\<lambda>x y m. fl_div (fl_sub (da_values da x y fhi m) (da_values da x y flo m))
                                            (da_values da x y fhi m))\<rparr>))"
  by (simp add: calc_yii_def sel_frame_label_def split: option.splits)

lemma where_mask_simps:
  "da_frame_label (where_mask ps_da msk) = da_frame_label ps_da"
  "da_measurement (where_mask ps_da msk) = da_measurement ps_da"
  "da_shape (where_mask ps_da msk) = da_shape ps_da"
  "da_values (where_mask ps_da msk) = masked_value ps_da msk"
  by (simp_all add: where_mask_def masked_value_def fun_eq_iff)

lemma compute_yii_dark:
  assumes "lower (da_name ps_da) = ''darkadapted''"
    and "da_frame_label ps_da ''Fm'' = Some fm" and "da_frame_label ps_da ''F0'' = Some f0"
  shows "compute_yii ps_da msk =
     Inr (Some \<lparr>yii_shape = da_shape ps_da, yii_measurement = da_measurement ps_da,
                yii_values = (\<lambda>x y m. fl_div (fl_sub (masked_value ps_da msk x y fm m)
                                                   (masked_value ps_da msk x y f0 m))
                                        (masked_value ps_da msk x y fm m))\<rparr>)"
  using assms by (simp add: compute_yii_def Let_def calc_yii_eq where_mask_simps)

lemma compute_yii_dark_frames:
  assumes "lower (da_name ps_da) = ''darkadapted''" and "compute_yii ps_da msk = Inr (Some yii)"
  shows "\<exists>fm f0. da_frame_label ps_da ''Fm'' = Some fm \<and> da_frame_label ps_da ''F0'' = Some f0"
  using assms by (auto simp: compute_yii_def Let_def calc_yii_eq where_mask_simps split: option.splits)

lemma compute_yii_light:
  assumes "lower (da_name ps_da) = ''lightadapted''" and "da_measurement ps_da \<noteq> []"
    and "da_frame_label ps_da ''Fmp'' = Some fm" and "da_frame_label ps_da ''Fp'' = Some f0"
  shows "compute_yii ps_da msk =
     Inr (Some \<lparr>yii_shape = da_shape ps_da, yii_measurement = da_measurement ps_da,
                yii_values = (\<lambda>x y m. fl_div (fl_sub (masked_value ps_da msk x y fm m)
                                                   (masked_value ps_da msk x y f0 m))
                                        (masked_value ps_da msk x y fm m))\<rparr>)"
proof -
  have "(''lightadapted'' :: string) \<noteq> ''darkadapted''" by simp
  with assms show ?thesis
    by (simp add: compute_yii_def Let_def calc_yii_eq where_mask_simps groupby_measurement_def)
qed

lemma compute_yii_other:
  assumes "lower (da_name ps_da) \<noteq> ''darkadapted''" and "lower (da_name ps_da) \<noteq> ''lightadapted''"
  shows "compute_yii ps_da msk = Inr None"
  using assms by (simp add: compute_yii_def Let_def)

lemma upt_2: "[0..<2] = [0, Suc 0]"
  by (simp add: numeral_2_eq_2)

lemma example_mask_unique: "unique example_mask = [1]"
  by (simp add: unique_def ravel_def example_mask_def upt_2)



lemma example_stack_simps:
  "lower (da_name example_stack) = ''darkadapted''"
  "da_frame_label example_stack ''Fm'' = Some 1"
  "da_frame_label example_stack ''F0'' = Some 0"
  "da_shape example_stack = (2, 2)"
  "da_measurement example_stack = [''t0'']"
  by (simp_all add: example_stack_def lower_def lower_char_def)

lemma example_mask_simps:
  "nd_shape example_mask = (2, 2)" "nd_dtype example_mask = ''uint8''"
  "nd_values example_mask x y = 1"
  by (simp_all add: example_mask_def)








subsection \<open>What a returned result determines\<close>

lemma analyze_yii_result:
  assumes "analyze_yii ps_da msk measurement_labels label outs = (Inr (yii, fig), outs')"
  shows "fig = last_figure yii measurement_labels
    \<and> outs' = outs\<lparr>observations := observations outs @ all_observations yii measurement_labels label,
                   images := images outs @ [yii]\<rparr>
    \<and> yii_measurement yii = da_measurement ps_da \<and> yii_shape yii = da_shape ps_da"
proof -
  note s = analyze_yii_success[OF assms]
  have "analyze_yii ps_da msk measurement_labels label outs =
    (Inr (yii, last_figure yii measurement_labels),
     outs\<lparr>observations := observations outs @ all_observations yii measurement_labels label,
          images := images outs @ [yii]\<rparr>)"
    using s by (intro analyze_yii_ok) simp_all
  with assms compute_yii_coords[of ps_da msk yii] s show ?thesis by simp
qed

lemma analyze_yii_dark_values:
  assumes "analyze_yii ps_da msk measurement_labels label outs = (Inr (yii, fig), outs')"
    and "lower (da_name ps_da) = ''darkadapted''"
  shows "\<exists>fm f0. da_frame_label ps_da ''Fm'' = Some fm \<and> da_frame_label ps_da ''F0'' = Some f0
          \<and> (\<forall>x y m. yii_values yii x y m =
                fl_div (fl_sub (masked_value ps_da msk x y fm m) (masked_value ps_da msk x y f0 m))
                       (masked_value ps_da msk x y fm m))"
proof -
  have c: "compute_yii ps_da msk = Inr (Some yii)"
    using analyze_yii_success[OF assms(1)] by simp
  from assms(2) c obtain fm f0 where
    f: "da_frame_label ps_da ''Fm'' = Some fm" "da_frame_label ps_da ''F0'' = Some f0"
    using compute_yii_dark_frames by blast
  have "yii = \<lparr>yii_shape = da_shape ps_da, yii_measurement = da_measurement ps_da,
                yii_values = (\<lambda>x y m. fl_div (fl_sub (masked_value ps_da msk x y fm m)
                                                   (masked_value ps_da msk x y f0 m))
                                        (masked_value ps_da msk x y fm m))\<rparr>"
    using compute_yii_dark[OF assms(2) f, of msk] c by simp
  then have "\<forall>x y m. yii_values yii x y m =
                fl_div (fl_sub (masked_value ps_da msk x y fm m) (masked_value ps_da msk x y f0 m))
                       (masked_value ps_da msk x y fm m)"
    by simp
  with f show ?thesis by blast
qed

lemma example_stack_update_simps:
  "da_shape (example_stack\<lparr>da_values := f\<rparr>) = (2, 2)"
  "lower (da_name (example_stack\<lparr>da_values := f\<rparr>)) = ''darkadapted''"
  "da_frame_label (example_stack\<lparr>da_values := f\<rparr>) ''Fm'' = Some 1"
  "da_frame_label (example_stack\<lparr>da_values := f\<rparr>) ''F0'' = Some 0"
  "da_measurement (example_stack\<lparr>da_values := f\<rparr>) = [''t0'']"
  "da_values (example_stack\<lparr>da_values := f\<rparr>) = f"
  by (simp_all add: example_stack_simps)

lemma example_values_analyze:
  "\<exists>yii. analyze_yii (example_stack\<lparr>da_values := f\<rparr>) example_mask None ''default'' no_outputs =
     (Inr (yii, last_figure yii None),
      no_outputs\<lparr>observations := observations no_outputs @ all_observations yii None ''default'',
                 images := images no_outputs @ [yii]\<rparr>)"
proof -
  obtain y where y: "compute_yii (example_stack\<lparr>da_values := f\<rparr>) example_mask = Inr (Some y)"
    using compute_yii_dark[OF example_stack_update_simps(2-4)] by blast
  have "analyze_yii (example_stack\<lparr>da_values := f\<rparr>) example_mask None ''default'' no_outputs =
     (Inr (y, last_figure y None),
      no_outputs\<lparr>observations := observations no_outputs @ all_observations y None ''default'',
                 images := images no_outputs @ [y]\<rparr>)"
    by (rule analyze_yii_ok)
       (simp_all add: example_stack_update_simps example_mask_simps example_mask_unique y)
  then show ?thesis by blast
qed

subsection \<open>Equal frames\<close>

text \<open>
  C2, amended. When a call on a dark-adapted stack returns, every mask pixel is 1, and the
  frame labeled \<open>Fm\<close> equals the frame labeled \<open>F0\<close> and is finite and not zero at
  every pixel and every measurement, the efficiency map is zero at every pixel and every
  measurement.
\<close>

theorem analyze_yii_equal_frames:
  assumes "analyze_yii ps_da msk measurement_labels label outs = (Inr (yii, fig), outs')"
    and "lower (da_name ps_da) = ''darkadapted''"
    and "da_frame_label ps_da ''Fm'' = Some fm" and "da_frame_label ps_da ''F0'' = Some f0"
    and "\<forall>x<fst (da_shape ps_da). \<forall>y<snd (da_shape ps_da). nd_values msk x y = 1"
    and "\<forall>x<fst (da_shape ps_da). \<forall>y<snd (da_shape ps_da). \<forall>m<length (da_measurement ps_da).
           da_values ps_da x y fm m = da_values ps_da x y f0 m
           \<and> (\<exists>v. da_values ps_da x y fm m = Fin v \<and> v \<noteq> 0)"
  shows "\<forall>x<fst (da_shape ps_da). \<forall>y<snd (da_shape ps_da). \<forall>m<length (da_measurement ps_da).
           yii_values yii x y m = Fin 0"
proof (intro allI impI)
  fix x y m
  assume b: "x < fst (da_shape ps_da)" "y < snd (da_shape ps_da)" "m < length (da_measurement ps_da)"
  from analyze_yii_dark_values[OF assms(1,2)] assms(3,4)
  have v: "yii_values yii x y m =
                fl_div (fl_sub (masked_value ps_da msk x y fm m) (masked_value ps_da msk x y f0 m))
                       (masked_value ps_da msk x y fm m)"
    by auto
  from assms(5) b have mk: "nd_values msk x y = 1" by simp
  from assms(6) b obtain w where w: "da_values ps_da x y fm m = Fin w" "w \<noteq> 0"
    "da_values ps_da x y f0 m = Fin w" by metis
  show "yii_values yii x y m = Fin 0"
    by (simp add: v masked_value_def mk w)
qed

text \<open>An instance: both frames are 3 at every pixel.\<close>

theorem analyze_yii_equal_frames_witness:
  "\<exists>yii fig outs'.
     analyze_yii (example_stack\<lparr>da_values := (\<lambda>x y f m. Fin 3)\<rparr>) example_mask None ''default''
       no_outputs = (Inr (yii, fig), outs')
     \<and> nd_values example_mask 1 1 = 1
     \<and> da_values (example_stack\<lparr>da_values := (\<lambda>x y f m. Fin 3)\<rparr>) 1 1 1 0 = Fin 3
     \<and> yii_values yii 1 1 0 = Fin 0"
proof -
  obtain y where r: "analyze_yii (example_stack\<lparr>da_values := (\<lambda>x y f m. Fin 3)\<rparr>) example_mask None
     ''default'' no_outputs =
     (Inr (y, last_figure y None),
      no_outputs\<lparr>observations := observations no_outputs @ all_observations y None ''default'',
                 images := images no_outputs @ [y]\<rparr>)"
    using example_values_analyze by blast
  have "\<forall>x<fst (da_shape (example_stack\<lparr>da_values := (\<lambda>x y f m. Fin 3)\<rparr>)).
        \<forall>ya<snd (da_shape (example_stack\<lparr>da_values := (\<lambda>x y f m. Fin 3)\<rparr>)).
        \<forall>m<length (da_measurement (example_stack\<lparr>da_values := (\<lambda>x y f m. Fin 3)\<rparr>)).
           yii_values y x ya m = Fin 0"
    by (rule analyze_yii_equal_frames[OF r example_stack_update_simps(2-4)])
       (simp_all add: example_mask_simps example_stack_update_simps)
  then have "yii_values y 1 1 0 = Fin 0"
    by (simp add: example_stack_update_simps)
  with r show ?thesis by (simp add: example_mask_simps example_stack_update_simps)
qed

text \<open>
  C2 as stated fails where both frames are 0: the frames are equal, every mask pixel is 1,
  and the map is not-a-number.
\<close>

theorem analyze_yii_equal_frames_counterexample:
  "da_values (example_stack\<lparr>da_values := (\<lambda>x y f m. Fin 0)\<rparr>) 0 0 1 0
     = da_values (example_stack\<lparr>da_values := (\<lambda>x y f m. Fin 0)\<rparr>) 0 0 0 0
   \<and> result_value (analyze_yii (example_stack\<lparr>da_values := (\<lambda>x y f m. Fin 0)\<rparr>) example_mask None
        ''default'' no_outputs) 0 0 0 = Some NaN"
proof -
  obtain y where r: "analyze_yii (example_stack\<lparr>da_values := (\<lambda>x y f m. Fin 0)\<rparr>) example_mask None
     ''default'' no_outputs =
     (Inr (y, last_figure y None),
      no_outputs\<lparr>observations := observations no_outputs @ all_observations y None ''default'',
                 images := images no_outputs @ [y]\<rparr>)"
    using example_values_analyze by blast
  from analyze_yii_dark_values[OF r example_stack_update_simps(2)]
  have "yii_values y 0 0 0 = NaN"
    by (simp add: example_stack_update_simps masked_value_def example_mask_simps)
  then show ?thesis by (simp add: r result_value_def example_stack_update_simps)
qed

subsection \<open>The outcome of a call that passes the preconditions\<close>

lemma compute_yii_error:
  "compute_yii ps_da msk = Inl e \<Longrightarrow> e = ValueError \<or> (\<exists>l. e = KeyError l)"
  unfolding compute_yii_def Let_def calc_yii_eq groupby_measurement_def
  by (auto split: if_splits option.splits sum.splits)

lemma analyze_yii_checked:
  assumes "nd_shape msk = da_shape ps_da" "length (unique msk) \<le> 2" "nd_dtype msk = ''uint8''"
    and "\<forall>ls. measurement_labels = Some ls \<longrightarrow> length ls = length (da_measurement ps_da)"
  shows "analyze_yii ps_da msk measurement_labels label outs =
    (case compute_yii ps_da msk of
       Inl e \<Rightarrow> (Inl e, outs)
     | Inr None \<Rightarrow> (Inl (UnboundLocalError ''yii''), outs)
     | Inr (Some yii) \<Rightarrow>
         if da_measurement ps_da = [] \<or> fst (da_shape ps_da) = 0 \<or> snd (da_shape ps_da) = 0
         then (Inl ValueError, outs)
         else (Inr (yii, last_figure yii measurement_labels),
               outs\<lparr>observations := observations outs @ all_observations yii measurement_labels label,
                    images := images outs @ [yii]\<rparr>))"
proof (cases "compute_yii ps_da msk")
  case (Inl e)
  have c3: "\<not> (case measurement_labels of None \<Rightarrow> False
               | Some ls \<Rightarrow> length ls \<noteq> length (da_measurement ps_da))"
    using assms(4) by (cases measurement_labels) simp_all
  show ?thesis using assms(1-3) c3 by (simp add: analyze_yii_def Inl)
next
  case (Inr r0)
  have c3: "\<not> (case measurement_labels of None \<Rightarrow> False
               | Some ls \<Rightarrow> length ls \<noteq> length (da_measurement ps_da))"
    using assms(4) by (cases measurement_labels) simp_all
  show ?thesis
  proof (cases r0)
    case None
    then show ?thesis using assms(1-3) c3 by (simp add: analyze_yii_def Inr)
  next
    case (Some yii)
    note y = Inr[unfolded Some]
    show ?thesis
    proof (cases "da_measurement ps_da = [] \<or> fst (da_shape ps_da) = 0 \<or> snd (da_shape ps_da) = 0")
      case True
      then have "compute_statistics yii = Inl ValueError"
        using compute_yii_coords[OF y]
        by (auto simp: compute_statistics_empty compute_statistics_empty_grid)
      then show ?thesis using assms(1-3) c3 True by (simp add: analyze_yii_def y)
    next
      case False
      then show ?thesis using analyze_yii_ok[OF assms y] by (simp add: y)
    qed
  qed
qed

lemma analyze_yii_fatal_shape:
  "nd_shape msk \<noteq> da_shape ps_da \<Longrightarrow>
   analyze_yii ps_da msk measurement_labels label outs =
     (Inl (FatalError (Mask_needs_to_have_shape (da_shape ps_da))), outs)"
  by (simp add: analyze_yii_def fatal_error_def)

lemma analyze_yii_fatal_binary:
  "nd_shape msk = da_shape ps_da \<Longrightarrow> 2 < length (unique msk) \<or> nd_dtype msk \<noteq> ''uint8'' \<Longrightarrow>
   analyze_yii ps_da msk measurement_labels label outs =
     (Inl (FatalError Mask_must_have_dtype_uint8_and_be_binary), outs)"
  by (simp add: analyze_yii_def fatal_error_def)

lemma analyze_yii_fatal_labels:
  "nd_shape msk = da_shape ps_da \<Longrightarrow> length (unique msk) \<le> 2 \<Longrightarrow> nd_dtype msk = ''uint8'' \<Longrightarrow>
   measurement_labels = Some ls \<Longrightarrow> length ls \<noteq> length (da_measurement ps_da) \<Longrightarrow>
   analyze_yii ps_da msk measurement_labels label outs =
     (Inl (FatalError Measurement_labels_must_be_the_same_length), outs)"
  by (simp add: analyze_yii_def fatal_error_def)

lemma set_ravel: "set (ravel shape f) = {v. \<exists>x<fst shape. \<exists>y<snd shape. v = f x y}"
  by (fastforce simp: ravel_def)

lemma unique_length:
  "length (unique a) = card {v. \<exists>x<fst (nd_shape a). \<exists>y<snd (nd_shape a). v = nd_values a x y}"
  by (simp add: unique_def length_remdups_card_conv set_ravel)

subsection \<open>An unrecognized variant\<close>

text \<open>
  C3, amended. For a stack whose name, in lower case, is neither \<open>darkadapted\<close> nor
  \<open>lightadapted\<close>, no efficiency map is computed, the call returns no result, and
  the observation store and the image collection are left as they were.
\<close>

theorem analyze_yii_unrecognized_variant:
  assumes "lower (da_name ps_da) \<noteq> ''darkadapted''" and "lower (da_name ps_da) \<noteq> ''lightadapted''"
  shows "compute_yii ps_da msk = Inr None
    \<and> (\<forall>yii fig. fst (analyze_yii ps_da msk measurement_labels label outs) \<noteq> Inr (yii, fig))
    \<and> snd (analyze_yii ps_da msk measurement_labels label outs) = outs"
proof -
  have c: "compute_yii ps_da msk = Inr None"
    using assms by (rule compute_yii_other)
  have "\<exists>e. analyze_yii ps_da msk measurement_labels label outs = (Inl e, outs)"
    unfolding analyze_yii_def fatal_error_def by (simp add: c)
  with c show ?thesis by auto
qed

text \<open>An instance: the example stack under the name \<open>Fluorescence\<close>.\<close>

theorem analyze_yii_unrecognized_variant_witness:
  "lower (da_name (example_stack\<lparr>da_name := ''Fluorescence''\<rparr>)) = ''fluorescence''
   \<and> compute_yii (example_stack\<lparr>da_name := ''Fluorescence''\<rparr>) example_mask = Inr None
   \<and> snd (analyze_yii (example_stack\<lparr>da_name := ''Fluorescence''\<rparr>) example_mask None ''default''
        no_outputs) = no_outputs"
proof -
  have l: "lower (da_name (example_stack\<lparr>da_name := ''Fluorescence''\<rparr>)) = ''fluorescence''"
    by (simp add: lower_def lower_char_def)
  have "''fluorescence'' \<noteq> ''darkadapted''" "''fluorescence'' \<noteq> ''lightadapted''" by simp_all
  with l have n: "lower (da_name (example_stack\<lparr>da_name := ''Fluorescence''\<rparr>)) \<noteq> ''darkadapted''"
    "lower (da_name (example_stack\<lparr>da_name := ''Fluorescence''\<rparr>)) \<noteq> ''lightadapted''"
    by simp_all
  from analyze_yii_unrecognized_variant[OF n, of example_mask None "''default''" no_outputs] l
  show ?thesis by simp
qed

text \<open>
  C3 as stated fails on that stack with the valid mask of the example: the call is not
  silent, it ends with the error of reading the unbound variable \<open>yii\<close>.
\<close>

theorem analyze_yii_unrecognized_variant_counterexample:
  "analyze_yii (example_stack\<lparr>da_name := ''Fluorescence''\<rparr>) example_mask None ''default'' no_outputs
     = (Inl (UnboundLocalError ''yii''), no_outputs)"
proof -
  have l: "lower ''Fluorescence'' = ''fluorescence''"
    by (simp add: lower_def lower_char_def)
  have c: "compute_yii (example_stack\<lparr>da_name := ''Fluorescence''\<rparr>) example_mask = Inr None"
    by (rule compute_yii_other) (simp_all add: l)
  show ?thesis
    by (subst analyze_yii_checked)
       (simp_all add: c example_mask_simps example_mask_unique example_stack_simps)
qed

subsection \<open>The binarity precondition\<close>

text \<open>
  C4, amended. A mask of the stack's shape with more than two distinct values, or with a
  dtype other than uint8, fails with the binarity error whatever the stack holds, and the
  store is unchanged. A uint8 mask with at most two distinct values never fails with that
  error, whichever values they are. The number that is compared with 2 is the number
  of distinct values at the positions of the mask.
\<close>

theorem analyze_yii_mask_not_binary:
  "(nd_shape msk = da_shape ps_da \<and> (2 < length (unique msk) \<or> nd_dtype msk \<noteq> ''uint8'')
      \<longrightarrow> analyze_yii ps_da msk measurement_labels label outs =
            (Inl (FatalError Mask_must_have_dtype_uint8_and_be_binary), outs))
   \<and> (length (unique msk) \<le> 2 \<and> nd_dtype msk = ''uint8''
      \<longrightarrow> fst (analyze_yii ps_da msk measurement_labels label outs) \<noteq>
            Inl (FatalError Mask_must_have_dtype_uint8_and_be_binary))
   \<and> length (unique msk) =
       card {v. \<exists>x<fst (nd_shape msk). \<exists>y<snd (nd_shape msk). v = nd_values msk x y}"
proof (intro conjI impI)
  assume "nd_shape msk = da_shape ps_da \<and> (2 < length (unique msk) \<or> nd_dtype msk \<noteq> ''uint8'')"
  then show "analyze_yii ps_da msk measurement_labels label outs =
            (Inl (FatalError Mask_must_have_dtype_uint8_and_be_binary), outs)"
    using analyze_yii_fatal_binary by blast
next
  assume a: "length (unique msk) \<le> 2 \<and> nd_dtype msk = ''uint8''"
  show "fst (analyze_yii ps_da msk measurement_labels label outs) \<noteq>
            Inl (FatalError Mask_must_have_dtype_uint8_and_be_binary)"
  proof (cases "nd_shape msk = da_shape ps_da")
    case False
    then show ?thesis by (simp add: analyze_yii_fatal_shape)
  next
    case True
    show ?thesis
    proof (cases "\<forall>ls. measurement_labels = Some ls \<longrightarrow> length ls = length (da_measurement ps_da)")
      case False
      then obtain ls where "measurement_labels = Some ls" "length ls \<noteq> length (da_measurement ps_da)"
        by blast
      then show ?thesis using True a by (simp add: analyze_yii_fatal_labels)
    next
      case l: True
      show ?thesis
        using compute_yii_error[of ps_da msk]
        by (subst analyze_yii_checked[OF True _ _ l])
           (use a in \<open>auto split: sum.splits option.splits\<close>)
    qed
  qed
next
  show "length (unique msk) =
       card {v. \<exists>x<fst (nd_shape msk). \<exists>y<snd (nd_shape msk). v = nd_values msk x y}"
    by (rule unique_length)
qed

text \<open>
  Instances: a mask with the three values 0, 1 and 2 is refused; the mask of the example
  is not.
\<close>

theorem analyze_yii_mask_not_binary_witness:
  "nd_shape (example_mask\<lparr>nd_values := (\<lambda>x y. int x + int y)\<rparr>) = da_shape example_stack
   \<and> unique (example_mask\<lparr>nd_values := (\<lambda>x y. int x + int y)\<rparr>) = [0, 1, 2]
   \<and> analyze_yii example_stack (example_mask\<lparr>nd_values := (\<lambda>x y. int x + int y)\<rparr>) None
        ''default'' no_outputs = (Inl (FatalError Mask_must_have_dtype_uint8_and_be_binary), no_outputs)
   \<and> length (unique example_mask) = 1 \<and> nd_dtype example_mask = ''uint8''
   \<and> fst (analyze_yii example_stack example_mask None ''default'' no_outputs) \<noteq>
            Inl (FatalError Mask_must_have_dtype_uint8_and_be_binary)"
proof -
  have u: "unique (example_mask\<lparr>nd_values := (\<lambda>x y. int x + int y)\<rparr>) = [0, 1, 2]"
    by (simp add: unique_def ravel_def example_mask_def upt_2)
  have s: "nd_shape (example_mask\<lparr>nd_values := (\<lambda>x y. int x + int y)\<rparr>) = da_shape example_stack"
    by (simp add: example_mask_simps example_stack_simps)
  from analyze_yii_mask_not_binary[of "example_mask\<lparr>nd_values := (\<lambda>x y. int x + int y)\<rparr>"
      example_stack None "''default''" no_outputs]
    analyze_yii_mask_not_binary[of example_mask example_stack None "''default''" no_outputs]
  show ?thesis
    by (simp add: u s example_mask_unique example_mask_simps)
qed

text \<open>
  C4 as stated fails on its own example: the uint8 mask with the values 5 and 7 is not
  refused, and the call returns the map of the unmasked stack.
\<close>

theorem analyze_yii_mask_not_binary_counterexample:
  "unique mask_5_7 = [5, 7]
   \<and> fst (analyze_yii example_stack mask_5_7 None ''default'' no_outputs) \<noteq>
       Inl (FatalError Mask_must_have_dtype_uint8_and_be_binary)
   \<and> result_value (analyze_yii example_stack mask_5_7 None ''default'' no_outputs) 0 0 0
       = Some (Fin (1/2))"
proof -
  have u: "unique mask_5_7 = [5, 7]"
    by (simp add: unique_def ravel_def mask_5_7_def upt_2)
  obtain y where y: "compute_yii example_stack mask_5_7 = Inr (Some y)"
    using compute_yii_dark[OF example_stack_simps(1-3)] by blast
  have r: "analyze_yii example_stack mask_5_7 None ''default'' no_outputs =
     (Inr (y, last_figure y None),
      no_outputs\<lparr>observations := observations no_outputs @ all_observations y None ''default'',
                 images := images no_outputs @ [y]\<rparr>)"
    by (rule analyze_yii_ok) (simp_all add: example_stack_simps u y, simp_all add: mask_5_7_def)
  from analyze_yii_dark_values[OF r example_stack_simps(1)]
  have "yii_values y 0 0 0 = Fin (1/2)"
    by (simp add: example_stack_simps masked_value_def mask_5_7_def, simp add: example_stack_def)
  then show ?thesis by (simp add: u r result_value_def)
qed

subsection \<open>The observations recorded\<close>

lemma concat_blocks_length:
  "\<forall>p\<in>set ps. length (f p) = n \<Longrightarrow> length (concat (map f ps)) = n * length ps"
  by (induction ps) simp_all

lemma concat_blocks_nth:
  "\<forall>p\<in>set ps. length (f p) = n \<Longrightarrow> i < length ps \<Longrightarrow>
   take n (drop (n * i) (concat (map f ps))) = f (ps ! i)"
proof (induction ps arbitrary: i)
  case Nil
  then show ?case by simp
next
  case (Cons p ps)
  have lp: "length (f p) = n" using Cons.prems(1) by simp
  show ?case
  proof (cases i)
    case 0
    then show ?thesis using lp by simp
  next
    case (Suc j)
    have "take n (drop (n * j) (concat (map f ps))) = f (ps ! j)"
      using Cons.IH[of j] Cons.prems Suc by simp
    then show ?thesis using lp Suc by (simp add: add.commute)
  qed
qed

lemma pass_observations_length:
  "length (pass_observations yii yii_median yii_mode yii_max label i mlabel) = 4"
  by (simp add: pass_observations_def)

lemma all_observations_length:
  "length (all_observations yii measurement_labels label) = 4 * length (yii_measurement yii)"
  unfolding all_observations_def Let_def
  by (subst concat_blocks_length[where n=4]) (simp_all add: pass_observations_length)

lemma all_observations_block:
  assumes "i < length (yii_measurement yii)"
  shows "map obs_variable (take 4 (drop (4 * i) (all_observations yii measurement_labels label))) =
     [''yii_median_'' @ pass_label measurement_labels (i, yii_measurement yii ! i),
      ''yii_mode_'' @ pass_label measurement_labels (i, yii_measurement yii ! i),
      ''yii_max_'' @ pass_label measurement_labels (i, yii_measurement yii ! i),
      ''yii_hist_'' @ pass_label measurement_labels (i, yii_measurement yii ! i)]
   \<and> map obs_datatype (take 4 (drop (4 * i) (all_observations yii measurement_labels label))) =
     [Float_type, Float_type, Float_type, List_type]"
  unfolding all_observations_def Let_def
  by (subst concat_blocks_nth[where n=4], simp add: pass_observations_length, simp add: assms)+
     (simp add: assms nth_enumerate_eq pass_observations_def float_observation_def hist_observation_def)

text \<open>
  C8. A call that returns has appended exactly \<open>4 * N\<close> observations to the store, where
  \<open>N\<close> is the number of measurements: for the measurement \<open>i\<close>, at the positions
  \<open>4 * i\<close> to \<open>4 * i + 3\<close>, the median, the mode and the maximum (floats) and the
  histogram (a list), each named after the resolved label of the measurement.
\<close>

theorem analyze_yii_observation_count:
  assumes "analyze_yii ps_da msk measurement_labels label outs = (Inr (yii, fig), outs')"
  shows "\<exists>obs. observations outs' = observations outs @ obs
    \<and> length obs = 4 * length (da_measurement ps_da)
    \<and> (\<forall>i<length (da_measurement ps_da).
          map obs_variable (take 4 (drop (4 * i) obs)) =
            [''yii_median_'' @ pass_label measurement_labels (i, da_measurement ps_da ! i),
             ''yii_mode_'' @ pass_label measurement_labels (i, da_measurement ps_da ! i),
             ''yii_max_'' @ pass_label measurement_labels (i, da_measurement ps_da ! i),
             ''yii_hist_'' @ pass_label measurement_labels (i, da_measurement ps_da ! i)]
          \<and> map obs_datatype (take 4 (drop (4 * i) obs)) =
            [Float_type, Float_type, Float_type, List_type])"
proof -
  note r = analyze_yii_result[OF assms]
  have ms: "yii_measurement yii = da_measurement ps_da" using r by simp
  have o: "observations outs' = observations outs @ all_observations yii measurement_labels label"
    using r by simp
  show ?thesis
    using o all_observations_length[of yii measurement_labels label]
      all_observations_block[of _ yii measurement_labels label]
    unfolding ms by blast
qed

lemma example_measurement_analyze:
  assumes "ms \<noteq> []" and "\<forall>ls. measurement_labels = Some ls \<longrightarrow> length ls = length ms"
  shows "\<exists>yii. analyze_yii (example_stack\<lparr>da_measurement := ms\<rparr>) msk0 measurement_labels label outs =
     (Inr (yii, last_figure yii measurement_labels),
      outs\<lparr>observations := observations outs @ all_observations yii measurement_labels label,
           images := images outs @ [yii]\<rparr>)
    \<or> nd_shape msk0 \<noteq> (2, 2) \<or> 2 < length (unique msk0) \<or> nd_dtype msk0 \<noteq> ''uint8''"
proof (cases "nd_shape msk0 = (2, 2) \<and> length (unique msk0) \<le> 2 \<and> nd_dtype msk0 = ''uint8''")
  case False
  then show ?thesis by auto
next
  case True
  have e: "lower (da_name (example_stack\<lparr>da_measurement := ms\<rparr>)) = ''darkadapted''"
    "da_frame_label (example_stack\<lparr>da_measurement := ms\<rparr>) ''Fm'' = Some 1"
    "da_frame_label (example_stack\<lparr>da_measurement := ms\<rparr>) ''F0'' = Some 0"
    by (simp_all add: example_stack_simps)
  obtain y where y: "compute_yii (example_stack\<lparr>da_measurement := ms\<rparr>) msk0 = Inr (Some y)"
    using compute_yii_dark[OF e] by blast
  have "analyze_yii (example_stack\<lparr>da_measurement := ms\<rparr>) msk0 measurement_labels label outs =
     (Inr (y, last_figure y measurement_labels),
      outs\<lparr>observations := observations outs @ all_observations y measurement_labels label,
           images := images outs @ [y]\<rparr>)"
    by (rule analyze_yii_ok) (use True assms y in \<open>simp_all add: example_stack_simps\<close>)
  then show ?thesis by blast
qed

lemma two_measurements_analyze:
  "\<exists>yii fig outs'. analyze_yii (example_stack\<lparr>da_measurement := [''t0'', ''t1'']\<rparr>) example_mask
      (Some [''a'', ''b'']) ''default'' no_outputs = (Inr (yii, fig), outs')"
  using example_measurement_analyze[of "[''t0'', ''t1'']" "Some [''a'', ''b'']" example_mask
      "''default''" no_outputs]
  by (auto simp: example_mask_simps example_mask_unique)

text \<open>An instance: two measurements with the labels \<open>a\<close> and \<open>b\<close>, eight observations.\<close>

theorem analyze_yii_observation_count_witness:
  "\<exists>yii fig outs'.
     analyze_yii (example_stack\<lparr>da_measurement := [''t0'', ''t1'']\<rparr>) example_mask
       (Some [''a'', ''b'']) ''default'' no_outputs = (Inr (yii, fig), outs')
     \<and> length (observations outs') = 8
     \<and> map obs_variable (take 4 (observations outs')) =
         [''yii_median_a'', ''yii_mode_a'', ''yii_max_a'', ''yii_hist_a'']
     \<and> map obs_variable (take 4 (drop 4 (observations outs'))) =
         [''yii_median_b'', ''yii_mode_b'', ''yii_max_b'', ''yii_hist_b'']"
proof -
  obtain yii fig outs' where r:
    "analyze_yii (example_stack\<lparr>da_measurement := [''t0'', ''t1'']\<rparr>) example_mask
       (Some [''a'', ''b'']) ''default'' no_outputs = (Inr (yii, fig), outs')"
    using two_measurements_analyze by blast
  from analyze_yii_observation_count[OF r] obtain obs where
    o: "observations outs' = observations no_outputs @ obs"
      "length obs = 4 * length (da_measurement (example_stack\<lparr>da_measurement := [''t0'', ''t1'']\<rparr>))"
    and b: "\<forall>i<length (da_measurement (example_stack\<lparr>da_measurement := [''t0'', ''t1'']\<rparr>)).
          map obs_variable (take 4 (drop (4 * i) obs)) =
            [''yii_median_'' @ pass_label (Some [''a'', ''b''])
                (i, da_measurement (example_stack\<lparr>da_measurement := [''t0'', ''t1'']\<rparr>) ! i),
             ''yii_mode_'' @ pass_label (Some [''a'', ''b''])
                (i, da_measurement (example_stack\<lparr>da_measurement := [''t0'', ''t1'']\<rparr>) ! i),
             ''yii_max_'' @ pass_label (Some [''a'', ''b''])
                (i, da_measurement (example_stack\<lparr>da_measurement := [''t0'', ''t1'']\<rparr>) ! i),
             ''yii_hist_'' @ pass_label (Some [''a'', ''b''])
                (i, da_measurement (example_stack\<lparr>da_measurement := [''t0'', ''t1'']\<rparr>) ! i)]
          \<and> map obs_datatype (take 4 (drop (4 * i) obs)) =
            [Float_type, Float_type, Float_type, List_type]"
    by blast
  have oo: "observations outs' = obs" using o by (simp add: no_outputs_def)
  have "length obs = 8" using o(2) by simp
  moreover have "map obs_variable (take 4 (drop (4 * 0) obs)) =
         [''yii_median_a'', ''yii_mode_a'', ''yii_max_a'', ''yii_hist_a'']"
    using b[rule_format, of 0] by (simp add: pass_label_def)
  moreover have "map obs_variable (take 4 (drop (4 * 1) obs)) =
         [''yii_median_b'', ''yii_mode_b'', ''yii_max_b'', ''yii_hist_b'']"
    using b[rule_format, of 1] by (simp add: pass_label_def)
  ultimately show ?thesis using r oo by simp
qed

lemma create_histogram_title: "title_measurement (snd (create_histogram vals lbl)) = lbl"
  by (simp add: create_histogram_def split_beta Let_def)

subsection \<open>The figure returned\<close>

text \<open>
  C9. A call that returns has at least one measurement, and the figure it returns is the
  one figure built by the last pass of the loop: from the slice of the map at the last
  measurement index and with the label resolved for it.
\<close>

theorem analyze_yii_last_figure:
  assumes "analyze_yii ps_da msk measurement_labels label outs = (Inr (yii, fig), outs')"
  shows "da_measurement ps_da \<noteq> []
    \<and> fig = snd (create_histogram
               (isel_measurement yii (length (da_measurement ps_da) - 1))
               (pass_label measurement_labels
                  (length (da_measurement ps_da) - 1, last (da_measurement ps_da))))"
proof -
  note r = analyze_yii_result[OF assms]
  have ne: "da_measurement ps_da \<noteq> []" using analyze_yii_success[OF assms] by simp
  have "fig = last_figure yii measurement_labels" using r by simp
  then show ?thesis using ne r by (simp add: last_figure_def Let_def)
qed

text \<open>An instance: of two measurements labeled \<open>a\<close> and \<open>b\<close>, the figure is the one of \<open>b\<close>.\<close>

theorem analyze_yii_last_figure_witness:
  "\<exists>yii fig outs'.
     analyze_yii (example_stack\<lparr>da_measurement := [''t0'', ''t1'']\<rparr>) example_mask
       (Some [''a'', ''b'']) ''default'' no_outputs = (Inr (yii, fig), outs')
     \<and> fig = snd (create_histogram (isel_measurement yii 1) ''b'')
     \<and> title_measurement fig = ''b''"
proof -
  obtain yii fig outs' where r:
    "analyze_yii (example_stack\<lparr>da_measurement := [''t0'', ''t1'']\<rparr>) example_mask
       (Some [''a'', ''b'']) ''default'' no_outputs = (Inr (yii, fig), outs')"
    using two_measurements_analyze by blast
  from analyze_yii_last_figure[OF r]
  have f: "fig = snd (create_histogram (isel_measurement yii 1) ''b'')"
    by (simp add: pass_label_def)
  then have "title_measurement fig = ''b''" by (simp add: create_histogram_title)
  with r f show ?thesis by blast
qed

subsection \<open>Masked-out pixels\<close>

text \<open>
  C7. When a call on a dark-adapted stack returns, the efficiency map is not-a-number, and
  so not finite, at every pixel where the mask is 0, at every measurement index.
\<close>

theorem analyze_yii_masked_out:
  assumes "analyze_yii ps_da msk measurement_labels label outs = (Inr (yii, fig), outs')"
    and "lower (da_name ps_da) = ''darkadapted''"
    and "x < fst (da_shape ps_da)" and "y < snd (da_shape ps_da)"
    and "nd_values msk x y = 0"
    and "m < length (da_measurement ps_da)"
  shows "yii_values yii x y m = NaN \<and> \<not> isfinite (yii_values yii x y m)"
proof -
  from analyze_yii_dark_values[OF assms(1,2)] obtain fm f0 where
    "yii_values yii x y m =
       fl_div (fl_sub (masked_value ps_da msk x y fm m) (masked_value ps_da msk x y f0 m))
              (masked_value ps_da msk x y fm m)"
    by blast
  then have "yii_values yii x y m = NaN"
    using assms(5) by (simp add: masked_value_def)
  then show ?thesis by simp
qed

text \<open>An instance: the example stack with the first row masked out.\<close>

theorem analyze_yii_masked_out_witness:
  "\<exists>yii fig outs'.
     analyze_yii example_stack masked_out_mask None ''default'' no_outputs = (Inr (yii, fig), outs')
     \<and> lower (da_name example_stack) = ''darkadapted''
     \<and> nd_values masked_out_mask 0 1 = 0
     \<and> yii_values yii 0 1 0 = NaN"
proof -
  have u: "unique masked_out_mask = [0, 255]"
    by (simp add: unique_def ravel_def masked_out_mask_def upt_2)
  obtain yii where y: "compute_yii example_stack masked_out_mask = Inr (Some yii)"
    using compute_yii_dark[OF example_stack_simps(1-3)] by blast
  have r: "analyze_yii example_stack masked_out_mask None ''default'' no_outputs =
     (Inr (yii, last_figure yii None),
      no_outputs\<lparr>observations := observations no_outputs @ all_observations yii None ''default'',
                 images := images no_outputs @ [yii]\<rparr>)"
    by (rule analyze_yii_ok) (simp_all add: example_stack_simps u y, simp_all add: masked_out_mask_def)
  have z: "nd_values masked_out_mask 0 1 = 0" by (simp add: masked_out_mask_def)
  from analyze_yii_masked_out[OF r example_stack_simps(1) _ _ z, of 0]
  have "yii_values yii 0 1 0 = NaN" by (simp add: example_stack_simps)
  with r z show ?thesis by (simp add: example_stack_simps)
qed

subsection \<open>Validation\<close>

text \<open>
  C5, amended. A call returns when the mask has the stack's shape, the dtype uint8 and at
  most two distinct values, the labels, when given, are as many as the measurements,
  there is at least one measurement, one row and one column, and the stack is
  dark-adapted with the frames \<open>Fm\<close> and \<open>F0\<close> or light-adapted with the frames
  \<open>Fmp\<close> and \<open>Fp\<close>. A call with a mask of another shape fails with the shape error,
  which names the stack's shape, and leaves the store unchanged.
\<close>

theorem analyze_yii_validation:
  "(nd_shape msk = da_shape ps_da \<and> nd_dtype msk = ''uint8'' \<and> length (unique msk) \<le> 2
      \<and> (\<forall>ls. measurement_labels = Some ls \<longrightarrow> length ls = length (da_measurement ps_da))
      \<and> da_measurement ps_da \<noteq> [] \<and> 0 < fst (da_shape ps_da) \<and> 0 < snd (da_shape ps_da)
      \<and> (lower (da_name ps_da) = ''darkadapted''
            \<and> da_frame_label ps_da ''Fm'' \<noteq> None \<and> da_frame_label ps_da ''F0'' \<noteq> None
          \<or> lower (da_name ps_da) = ''lightadapted''
            \<and> da_frame_label ps_da ''Fmp'' \<noteq> None \<and> da_frame_label ps_da ''Fp'' \<noteq> None)
      \<longrightarrow> (\<exists>yii fig outs'.
            analyze_yii ps_da msk measurement_labels label outs = (Inr (yii, fig), outs')))
   \<and> (nd_shape msk \<noteq> da_shape ps_da
      \<longrightarrow> analyze_yii ps_da msk measurement_labels label outs =
            (Inl (FatalError (Mask_needs_to_have_shape (da_shape ps_da))), outs))"
proof (intro conjI impI)
  assume a: "nd_shape msk = da_shape ps_da \<and> nd_dtype msk = ''uint8'' \<and> length (unique msk) \<le> 2
      \<and> (\<forall>ls. measurement_labels = Some ls \<longrightarrow> length ls = length (da_measurement ps_da))
      \<and> da_measurement ps_da \<noteq> [] \<and> 0 < fst (da_shape ps_da) \<and> 0 < snd (da_shape ps_da)
      \<and> (lower (da_name ps_da) = ''darkadapted''
            \<and> da_frame_label ps_da ''Fm'' \<noteq> None \<and> da_frame_label ps_da ''F0'' \<noteq> None
          \<or> lower (da_name ps_da) = ''lightadapted''
            \<and> da_frame_label ps_da ''Fmp'' \<noteq> None \<and> da_frame_label ps_da ''Fp'' \<noteq> None)"
  have "\<exists>yii. compute_yii ps_da msk = Inr (Some yii)"
  proof (cases "lower (da_name ps_da) = ''darkadapted''")
    case True
    with a obtain fm f0 where "da_frame_label ps_da ''Fm'' = Some fm" "da_frame_label ps_da ''F0'' = Some f0"
      by auto
    then show ?thesis using compute_yii_dark[OF True] by blast
  next
    case False
    with a have l: "lower (da_name ps_da) = ''lightadapted''" by blast
    from a False obtain fm f0 where "da_frame_label ps_da ''Fmp'' = Some fm" "da_frame_label ps_da ''Fp'' = Some f0"
      by auto
    then show ?thesis using compute_yii_light[OF l] a by blast
  qed
  then obtain yii where y: "compute_yii ps_da msk = Inr (Some yii)" by blast
  have "analyze_yii ps_da msk measurement_labels label outs =
    (Inr (yii, last_figure yii measurement_labels),
     outs\<lparr>observations := observations outs @ all_observations yii measurement_labels label,
          images := images outs @ [yii]\<rparr>)"
    using a y by (intro analyze_yii_ok) simp_all
  then show "\<exists>yii fig outs'.
            analyze_yii ps_da msk measurement_labels label outs = (Inr (yii, fig), outs')"
    by blast
next
  assume "nd_shape msk \<noteq> da_shape ps_da"
  then show "analyze_yii ps_da msk measurement_labels label outs =
            (Inl (FatalError (Mask_needs_to_have_shape (da_shape ps_da))), outs)"
    by (rule analyze_yii_fatal_shape)
qed

text \<open>
  Instances: the example with one label returns; with a mask of shape (2, 3) it fails
  with the error that names the shape (2, 2).
\<close>

theorem analyze_yii_validation_witness:
  "nd_shape example_mask = da_shape example_stack \<and> nd_dtype example_mask = ''uint8''
   \<and> length (unique example_mask) \<le> 2 \<and> da_measurement example_stack \<noteq> []
   \<and> 0 < fst (da_shape example_stack) \<and> 0 < snd (da_shape example_stack)
   \<and> lower (da_name example_stack) = ''darkadapted''
   \<and> da_frame_label example_stack ''Fm'' \<noteq> None \<and> da_frame_label example_stack ''F0'' \<noteq> None
   \<and> (\<exists>yii fig outs'.
        analyze_yii example_stack example_mask (Some [''a'']) ''default'' no_outputs
          = (Inr (yii, fig), outs'))
   \<and> nd_shape (example_mask\<lparr>nd_shape := (2, 3)\<rparr>) \<noteq> da_shape example_stack
   \<and> analyze_yii example_stack (example_mask\<lparr>nd_shape := (2, 3)\<rparr>) None ''default'' no_outputs =
       (Inl (FatalError (Mask_needs_to_have_shape (2, 2))), no_outputs)"
  using analyze_yii_validation[of example_mask example_stack "Some [''a'']" "''default''" no_outputs]
    analyze_yii_validation[of "example_mask\<lparr>nd_shape := (2, 3)\<rparr>" example_stack None "''default''"
      no_outputs]
  by (simp add: example_mask_simps example_stack_simps example_mask_unique)

text \<open>
  C5 as stated fails on a dark-adapted stack with the frames \<open>F0\<close> and \<open>Fdark\<close> and no
  frame \<open>Fm\<close>: shape, mask and name are as the claim asks, and the call ends with a
  KeyError. It fails as well on a stack without any measurement, and on a stack without
  any row, where the maximum over an empty slice is a ValueError.
\<close>

theorem analyze_yii_validation_counterexample:
  "nd_shape example_mask = da_shape (example_stack\<lparr>da_frame_label := [''F0'' \<mapsto> 0, ''Fdark'' \<mapsto> 1]\<rparr>)
   \<and> length (unique example_mask) \<le> 2 \<and> nd_dtype example_mask = ''uint8''
   \<and> lower (da_name (example_stack\<lparr>da_frame_label := [''F0'' \<mapsto> 0, ''Fdark'' \<mapsto> 1]\<rparr>)) = ''darkadapted''
   \<and> analyze_yii (example_stack\<lparr>da_frame_label := [''F0'' \<mapsto> 0, ''Fdark'' \<mapsto> 1]\<rparr>) example_mask None
        ''default'' no_outputs = (Inl (KeyError ''Fm''), no_outputs)
   \<and> isl (fst (analyze_yii (example_stack\<lparr>da_measurement := []\<rparr>) example_mask None
        ''default'' no_outputs))
   \<and> nd_shape (example_mask\<lparr>nd_shape := (0, 2)\<rparr>) = da_shape (example_stack\<lparr>da_shape := (0, 2)\<rparr>)
   \<and> length (unique (example_mask\<lparr>nd_shape := (0, 2)\<rparr>)) \<le> 2
   \<and> analyze_yii (example_stack\<lparr>da_shape := (0, 2)\<rparr>) (example_mask\<lparr>nd_shape := (0, 2)\<rparr>) None
        ''default'' no_outputs = (Inl ValueError, no_outputs)"
proof -
  have c: "compute_yii (example_stack\<lparr>da_frame_label := [''F0'' \<mapsto> 0, ''Fdark'' \<mapsto> 1]\<rparr>) example_mask
      = Inl (KeyError ''Fm'')"
    by (simp add: compute_yii_def Let_def calc_yii_eq where_mask_simps example_stack_simps)
  have v: "nd_shape example_mask = da_shape (example_stack\<lparr>da_frame_label := [''F0'' \<mapsto> 0, ''Fdark'' \<mapsto> 1]\<rparr>)"
    "length (unique example_mask) \<le> 2" "nd_dtype example_mask = ''uint8''"
    "\<forall>ls. (None :: string list option) = Some ls \<longrightarrow>
       length ls = length (da_measurement (example_stack\<lparr>da_frame_label := [''F0'' \<mapsto> 0, ''Fdark'' \<mapsto> 1]\<rparr>))"
    by (simp_all add: example_mask_simps example_mask_unique example_stack_simps)
  have 1: "analyze_yii (example_stack\<lparr>da_frame_label := [''F0'' \<mapsto> 0, ''Fdark'' \<mapsto> 1]\<rparr>) example_mask None
        ''default'' no_outputs = (Inl (KeyError ''Fm''), no_outputs)"
    unfolding analyze_yii_checked[OF v] c by simp
  obtain y where y: "compute_yii (example_stack\<lparr>da_measurement := []\<rparr>) example_mask = Inr (Some y)"
    using compute_yii_dark[of "example_stack\<lparr>da_measurement := []\<rparr>" 1 0 example_mask]
    by (simp add: example_stack_simps)
  have 2: "analyze_yii (example_stack\<lparr>da_measurement := []\<rparr>) example_mask None
        ''default'' no_outputs = (Inl ValueError, no_outputs)"
    by (subst analyze_yii_checked)
       (simp_all add: y example_mask_simps example_mask_unique example_stack_simps)
  have u: "unique (example_mask\<lparr>nd_shape := (0, 2)\<rparr>) = []"
    by (simp add: unique_def ravel_def)
  obtain z where z: "compute_yii (example_stack\<lparr>da_shape := (0, 2)\<rparr>)
      (example_mask\<lparr>nd_shape := (0, 2)\<rparr>) = Inr (Some z)"
    using compute_yii_dark[of "example_stack\<lparr>da_shape := (0, 2)\<rparr>" 1 0
        "example_mask\<lparr>nd_shape := (0, 2)\<rparr>"]
    by (simp add: example_stack_simps)
  have 3: "analyze_yii (example_stack\<lparr>da_shape := (0, 2)\<rparr>) (example_mask\<lparr>nd_shape := (0, 2)\<rparr>) None
        ''default'' no_outputs = (Inl ValueError, no_outputs)"
    by (subst analyze_yii_checked)
       (simp_all add: z u example_mask_simps example_stack_simps)
  show ?thesis
    using 1 2 3 by (simp add: u example_mask_simps example_mask_unique example_stack_simps)
qed

end
